theory Spec2Isabelle
  imports Main "HOL-Library.Sublist"
begin

section \<open>Values and raw findings\<close>

text \<open>
  The scan engine returns its alerts as JSON objects whose fields are strings; the
  synthetic level-3 record of \<open>scan\<close> also stores \<open>None\<close> under two keys.  A field value
  is therefore either \<open>None\<close> or a string, and a raw finding is a dictionary from key
  names to such values.
\<close>

datatype pyval = PNone | PStr string

type_synonym raw_finding = "string \<rightharpoonup> pyval"

text \<open>\<open>a.get(k)\<close>: the value under \<open>k\<close>, or \<open>None\<close> when the key is absent.\<close>

definition dict_get :: "raw_finding \<Rightarrow> string \<Rightarrow> pyval" where
  "dict_get a k = (case a k of None \<Rightarrow> PNone | Some v \<Rightarrow> v)"

text \<open>Python truthiness: \<open>None\<close> and the empty string are false.\<close>

fun truthy :: "pyval \<Rightarrow> bool" where
  "truthy PNone = False"
| "truthy (PStr s) = (s \<noteq> [])"

text \<open>\<open>x or y\<close> evaluates to \<open>x\<close> when \<open>x\<close> is true and to \<open>y\<close> otherwise.\<close>

definition py_or :: "pyval \<Rightarrow> pyval \<Rightarrow> pyval" where
  "py_or x y = (if truthy x then x else y)"

section \<open>Severity model\<close>

text \<open>\<open>risk_to_score\<close>: a dictionary lookup with default \<open>0\<close>.\<close>

definition score_mapping :: "(pyval \<times> int) list" where
  "score_mapping =
     [(PStr ''High'', 9), (PStr ''Medium'', 6), (PStr ''Low'', 3),
      (PStr ''Informational'', 1), (PStr ''Critical'', 10)]"

definition risk_to_score :: "pyval \<Rightarrow> int" where
  "risk_to_score r = (case map_of score_mapping r of None \<Rightarrow> 0 | Some s \<Rightarrow> s)"

section \<open>Finding normalizer\<close>

text \<open>
  The accumulator kept per name by \<open>simplify_alerts\<close> (the value produced by the
  \<open>defaultdict\<close> factory), the dictionary emitted per group (the same keys plus
  \<open>name\<close>), and the dictionary after \<open>scan\<close> has added \<open>score\<close> and, on a keyword
  match, \<open>extra_suggestion\<close>.
\<close>

record info =
  urls :: "pyval list"
  params :: "pyval list"
  risk :: pyval
  description :: pyval
  solution :: pyval
  reference :: pyval

record finding = info +
  name :: pyval

record vuln = finding +
  score :: int
  extra_suggestion :: "string option"

definition fresh_info :: info where
  "fresh_info =
     \<lparr>urls = [], params = [], risk = PNone, description = PStr [],
      solution = PStr [], reference = PStr []\<rparr>"

text \<open>
  \<open>grouped\<close> is an insertion-ordered dictionary: an association list with distinct keys,
  a new key going to the end.  \<open>group_update g n f\<close> is one statement of the form
  \<open>grouped[name][field] = v\<close> or \<open>grouped[name][field].append(v)\<close>: the lookup creates
  the default entry when the key is missing, then the entry is changed by \<open>f\<close>.
\<close>

type_synonym grouped = "(pyval \<times> info) list"

definition group_update :: "grouped \<Rightarrow> pyval \<Rightarrow> (info \<Rightarrow> info) \<Rightarrow> grouped" where
  "group_update g n f =
     (if n \<in> fst ` set g
      then map (\<lambda>(k, v). if k = n then (k, f v) else (k, v)) g
      else g @ [(n, f fresh_info)])"

definition resolve_name :: "raw_finding \<Rightarrow> pyval" where
  "resolve_name a = py_or (py_or (dict_get a ''alert'') (dict_get a ''name'')) (PStr ''Unknown'')"

definition resolve_risk :: "raw_finding \<Rightarrow> pyval" where
  "resolve_risk a =
     py_or (py_or (py_or (dict_get a ''risk'') (dict_get a ''riskdesc'')) (dict_get a ''severity''))
       (PStr ''Informational'')"

definition resolve_desc :: "raw_finding \<Rightarrow> pyval" where
  "resolve_desc a =
     py_or (py_or (py_or (py_or (dict_get a ''description'') (dict_get a ''desc''))
       (dict_get a ''evidence'')) (dict_get a ''url'')) (PStr [])"

definition resolve_solution :: "raw_finding \<Rightarrow> pyval" where
  "resolve_solution a = py_or (py_or (dict_get a ''solution'') (dict_get a ''solutions'')) (PStr [])"

definition resolve_reference :: "raw_finding \<Rightarrow> pyval" where
  "resolve_reference a =
     py_or (py_or (dict_get a ''reference'') (dict_get a ''references'')) (PStr [])"

definition resolve_url :: "raw_finding \<Rightarrow> pyval" where
  "resolve_url a = py_or (dict_get a ''url'') (dict_get a ''uri'')"

text \<open>The body of the loop over \<open>alerts\<close>, one statement after the other.\<close>

definition alert_step :: "grouped \<Rightarrow> raw_finding \<Rightarrow> grouped" where
  "alert_step g a =
     (let nm = resolve_name a;
          rk = resolve_risk a;
          desc = resolve_desc a;
          sol = resolve_solution a;
          ref = resolve_reference a;
          g1 = group_update g nm (\<lambda>i. i\<lparr>risk := rk\<rparr>);
          g2 = (if truthy desc then group_update g1 nm (\<lambda>i. i\<lparr>description := desc\<rparr>) else g1);
          g3 = (if truthy sol then group_update g2 nm (\<lambda>i. i\<lparr>solution := sol\<rparr>) else g2);
          g4 = (if truthy ref then group_update g3 nm (\<lambda>i. i\<lparr>reference := ref\<rparr>) else g3);
          url = resolve_url a;
          g5 = (if truthy url then group_update g4 nm (\<lambda>i. i\<lparr>urls := urls i @ [url]\<rparr>) else g4);
          param = dict_get a ''param'';
          g6 = (if truthy param then group_update g5 nm (\<lambda>i. i\<lparr>params := params i @ [param]\<rparr>)
                else g5)
      in g6)"

text \<open>
  What one pass of the loop body does to the entry of its name: the same assignments,
  applied to the entry itself.
\<close>

definition record_effect :: "raw_finding \<Rightarrow> info \<Rightarrow> info" where
  "record_effect a i =
     (let i1 = i\<lparr>risk := resolve_risk a\<rparr>;
          i2 = (if truthy (resolve_desc a) then i1\<lparr>description := resolve_desc a\<rparr> else i1);
          i3 = (if truthy (resolve_solution a) then i2\<lparr>solution := resolve_solution a\<rparr> else i2);
          i4 = (if truthy (resolve_reference a) then i3\<lparr>reference := resolve_reference a\<rparr> else i3);
          i5 = (if truthy (resolve_url a) then i4\<lparr>urls := urls i4 @ [resolve_url a]\<rparr> else i4);
          i6 = (if truthy (dict_get a ''param'') then i5\<lparr>params := params i5 @ [dict_get a ''param'']\<rparr>
                else i5)
      in i6)"

text \<open>
  \<open>list(dict.fromkeys(xs))\<close>: the keys are inserted in order into an empty dictionary,
  a key already present keeping its place.
\<close>

definition fromkeys_insert :: "'a list \<Rightarrow> 'a \<Rightarrow> 'a list" where
  "fromkeys_insert seen x = (if x \<in> set seen then seen else seen @ [x])"

definition fromkeys :: "'a list \<Rightarrow> 'a list" where
  "fromkeys xs = foldl fromkeys_insert [] xs"

definition emit :: "pyval \<times> info \<Rightarrow> finding" where
  "emit p =
     (case p of (n, i) \<Rightarrow>
        \<lparr>urls = fromkeys (urls i), params = fromkeys (params i), risk = risk i,
         description = description i, solution = solution i, reference = reference i,
         name = n\<rparr>)"

definition simplify_alerts :: "raw_finding list \<Rightarrow> finding list" where
  "simplify_alerts alerts = map emit (foldl alert_step [] alerts)"

section \<open>Scoring, suggestions and severity buckets\<close>

definition CUSTOM_SUGGESTIONS :: "(string \<times> string) list" where
  "CUSTOM_SUGGESTIONS =
     [(''Cross Site Scripting'',
       ''Validate and sanitize inputs. Use CSP headers and avoid inline JS.''),
      (''SQL Injection'',
       ''Use parameterized queries/ORM. Never concatenate user input into SQL.''),
      (''Insecure Cookies'', ''Enable HttpOnly, Secure, SameSite attributes on cookies.''),
      (''CSP'', ''Add strong Content-Security-Policy headers to block inline scripts.''),
      (''CORS'', ''Restrict allowed origins to trusted domains and avoid '' @ [CHR 0x27] @ ''*''
         @ [CHR 0x27] @ ''.'')]"

text \<open>\<open>str.lower\<close> on ASCII text: the letters A to Z move to a to z, every other byte stays.\<close>

definition lower_char :: "char \<Rightarrow> char" where
  "lower_char c =
     (case map_of (zip ''ABCDEFGHIJKLMNOPQRSTUVWXYZ'' ''abcdefghijklmnopqrstuvwxyz'') c of
        None \<Rightarrow> c | Some d \<Rightarrow> d)"

definition lower :: "string \<Rightarrow> string" where
  "lower s = map lower_char s"

text \<open>\<open>sub in s\<close> on strings: \<open>sub\<close> occurs in \<open>s\<close> as a contiguous block.\<close>

fun contains :: "string \<Rightarrow> string \<Rightarrow> bool" where
  "contains sub [] = (sub = [])"
| "contains sub (c # cs) = (prefix sub (c # cs) \<or> contains sub cs)"

text \<open>The text of a value that is known to be a string (\<open>(x or "")\<close> always is).\<close>

fun the_str :: "pyval \<Rightarrow> string" where
  "the_str (PStr s) = s"
| "the_str PNone = []"

definition enrich_suggestions :: "vuln \<Rightarrow> vuln" where
  "enrich_suggestions alert =
     (case find (\<lambda>(key, suggestion).
                   contains (lower key) (lower (the_str (py_or (name alert) (PStr [])))))
             CUSTOM_SUGGESTIONS of
        None \<Rightarrow> alert
      | Some (key, suggestion) \<Rightarrow> alert\<lparr>extra_suggestion := Some suggestion\<rparr>)"

definition add_score :: "finding \<Rightarrow> vuln" where
  "add_score a =
     \<lparr>urls = urls a, params = params a, risk = risk a, description = description a,
      solution = solution a, reference = reference a, name = name a,
      score = risk_to_score (risk a), extra_suggestion = None\<rparr>"

definition finalize :: "finding list \<Rightarrow> vuln list" where
  "finalize simplified = map (\<lambda>a. enrich_suggestions (add_score a)) simplified"

text \<open>The four comprehensions of \<open>scan\<close>, each a label with its condition on the score.\<close>

definition bucket_conds :: "(string \<times> (int \<Rightarrow> bool)) list" where
  "bucket_conds =
     [(''Critical'', \<lambda>s. s \<ge> 9),
      (''High'', \<lambda>s. 6 \<le> s \<and> s < 9),
      (''Medium'', \<lambda>s. 3 \<le> s \<and> s < 6),
      (''Low'', \<lambda>s. s < 3)]"

definition severity_groups :: "vuln list \<Rightarrow> (string \<times> vuln list) list" where
  "severity_groups final = map (\<lambda>(k, p). (k, filter (\<lambda>v. p (score v)) final)) bucket_conds"

definition summary_of :: "vuln list \<Rightarrow> (string \<times> nat) list" where
  "summary_of final = map (\<lambda>(k, vs). (k, length vs)) (severity_groups final)"

text \<open>The labels of the buckets whose condition a score meets.\<close>

definition buckets_of :: "int \<Rightarrow> string list" where
  "buckets_of s = map fst (filter (\<lambda>(k, p). p s) bucket_conds)"

definition first_seen :: "'a list \<Rightarrow> 'a list" where
  "first_seen xs = map (\<lambda>i. xs ! i) (filter (\<lambda>i. xs ! i \<notin> set (take i xs)) [0..<length xs])"

definition group_of :: "grouped \<Rightarrow> pyval \<Rightarrow> info" where
  "group_of g n = (case map_of g n of None \<Rightarrow> fresh_info | Some i \<Rightarrow> i)"

definition fold_effect :: "info \<Rightarrow> raw_finding list \<Rightarrow> info" where
  "fold_effect i as = foldl (\<lambda>i a. record_effect a i) i as"

definition same_name :: "pyval \<Rightarrow> raw_finding list \<Rightarrow> raw_finding list" where
  "same_name n alerts = filter (\<lambda>a. resolve_name a = n) alerts"

definition group_urls :: "pyval \<Rightarrow> raw_finding list \<Rightarrow> pyval list" where
  "group_urls n alerts = filter truthy (map resolve_url (same_name n alerts))"

definition group_params :: "pyval \<Rightarrow> raw_finding list \<Rightarrow> pyval list" where
  "group_params n alerts = filter truthy (map (\<lambda>a. dict_get a ''param'') (same_name n alerts))"

definition info_equiv :: "info \<Rightarrow> info \<Rightarrow> bool" where
  "info_equiv i j \<longleftrightarrow>
     risk i = risk j \<and> description i = description j \<and> solution i = solution j \<and>
     reference i = reference j \<and> fromkeys (urls i) = fromkeys (urls j) \<and>
     fromkeys (params i) = fromkeys (params j)"

definition scenario_alerts :: "raw_finding list" where
  "scenario_alerts =
     [[''alert'' \<mapsto> PStr ''XSS'', ''risk'' \<mapsto> PStr ''High'', ''url'' \<mapsto> PStr ''http://a/x''],
      [''alert'' \<mapsto> PStr ''XSS'', ''risk'' \<mapsto> PStr ''High'', ''url'' \<mapsto> PStr ''http://a/y''],
      [''alert'' \<mapsto> PStr ''SQLi'', ''risk'' \<mapsto> PStr ''Critical'']]"

definition raw_risk :: "raw_finding \<Rightarrow> pyval" where
  "raw_risk a = py_or (py_or (dict_get a ''risk'') (dict_get a ''riskdesc'')) (dict_get a ''severity'')"

definition spec_last_nonempty_risk :: "pyval \<Rightarrow> raw_finding list \<Rightarrow> pyval" where
  "spec_last_nonempty_risk n alerts = last (filter truthy (map raw_risk (same_name n alerts)))"

definition finding_with_risk :: raw_finding where
  "finding_with_risk = [''alert'' \<mapsto> PStr ''A'', ''risk'' \<mapsto> PStr ''High'']"

definition finding_with_desc :: raw_finding where
  "finding_with_desc = [''alert'' \<mapsto> PStr ''A'', ''description'' \<mapsto> PStr ''D'']"

definition finding_url_only :: raw_finding where
  "finding_url_only = [''alert'' \<mapsto> PStr ''A'', ''url'' \<mapsto> PStr ''http://a/x'']"

definition finding_uri_only :: raw_finding where
  "finding_uri_only = [''alert'' \<mapsto> PStr ''A'', ''uri'' \<mapsto> PStr ''http://a/y'']"

section \<open>Scan engine, clock and generation service\<close>

text \<open>
  The ZAP client, the clock, the generation service and the URL validator are outside the
  program.  Each call is a function of the state of the world \<open>'w\<close>; a call that can raise
  returns the text of the exception (\<open>str(e)\<close>) on the left.  \<open>spider_status\<close> and
  \<open>ascan_status\<close> stand for \<open>int(zap.spider.status(id))\<close> and \<open>int(zap.ascan.status(id))\<close>,
  the conversion included; \<open>generate\<close> stands for building the model, \<open>generate_content\<close>
  and reading \<open>response.text\<close>; \<open>sleep\<close> is \<open>time.sleep(1)\<close> and \<open>time_now\<close> is
  \<open>time.time()\<close>, in whole seconds.
\<close>

type_synonym err = string

record 'w engine =
  urlopen :: "string \<Rightarrow> 'w \<Rightarrow> (err + unit) \<times> 'w"
  spider_scan :: "string \<Rightarrow> 'w \<Rightarrow> (err + string) \<times> 'w"
  spider_status :: "string \<Rightarrow> 'w \<Rightarrow> (err + int) \<times> 'w"
  core_alerts :: "string \<Rightarrow> 'w \<Rightarrow> (err + raw_finding list) \<times> 'w"
  ascan_scan :: "string \<Rightarrow> 'w \<Rightarrow> (err + string) \<times> 'w"
  ascan_status :: "string \<Rightarrow> 'w \<Rightarrow> (err + int) \<times> 'w"
  time_now :: "'w \<Rightarrow> int"
  sleep :: "'w \<Rightarrow> 'w"
  generate :: "string \<Rightarrow> 'w \<Rightarrow> (err + string) \<times> 'w"
  utcnow :: "'w \<Rightarrow> string"
  valid_url :: "string \<Rightarrow> bool"

section \<open>Scanning helpers\<close>

definition with_scheme :: "string \<Rightarrow> string" where
  "with_scheme target = (if prefix ''http'' target then target else ''http://'' @ target)"

text \<open>
  The polling loop of \<open>spider_and_get_alerts\<close>.  The loop ends only when the engine reports
  100 or the clock passes the bound, so the model counts iterations: \<open>None\<close> is a loop still
  running when the count is used up.  An exception of the status call is caught and read as
  status 0.
\<close>

fun spider_poll :: "nat \<Rightarrow> 'w engine \<Rightarrow> string \<Rightarrow> int \<Rightarrow> int \<Rightarrow> 'w \<Rightarrow> 'w option" where
  "spider_poll 0 E spider_id start timeout w = None"
| "spider_poll (Suc n) E spider_id start timeout w =
     (case spider_status E spider_id w of
        (r, w1) \<Rightarrow>
          (let status = (case r of Inl e \<Rightarrow> 0 | Inr s \<Rightarrow> s) in
           if status \<ge> 100 \<or> time_now E w1 - start > timeout then Some w1
           else spider_poll n E spider_id start timeout (sleep E w1)))"

definition spider_and_get_alerts ::
  "nat \<Rightarrow> 'w engine \<Rightarrow> string \<Rightarrow> int \<Rightarrow> 'w \<Rightarrow> ((err + raw_finding list) \<times> 'w) option" where
  "spider_and_get_alerts fuel E target timeout w =
     (let target = with_scheme target in
      case urlopen E target w of
        (Inl e, w1) \<Rightarrow> Some (Inl e, w1)
      | (Inr u, w1) \<Rightarrow>
          (case spider_scan E target (sleep E w1) of
             (Inl e, w2) \<Rightarrow> Some (Inl e, w2)
           | (Inr spider_id, w2) \<Rightarrow>
               (case spider_poll fuel E spider_id (time_now E w2) timeout w2 of
                  None \<Rightarrow> None
                | Some w3 \<Rightarrow> Some (core_alerts E target (sleep E w3)))))"

text \<open>
  The polling loop of the active scan: here an exception of the status call leaves the loop
  and the function.
\<close>

fun ascan_poll :: "nat \<Rightarrow> 'w engine \<Rightarrow> string \<Rightarrow> int \<Rightarrow> 'w \<Rightarrow> ((err + unit) \<times> 'w) option" where
  "ascan_poll 0 E ascan_id start w = None"
| "ascan_poll (Suc n) E ascan_id start w =
     (case ascan_status E ascan_id w of
        (Inl e, w1) \<Rightarrow> Some (Inl e, w1)
      | (Inr status, w1) \<Rightarrow>
          if status < 100 then
            (if time_now E w1 - start > 90 then Some (Inr (), w1)
             else ascan_poll n E ascan_id start (sleep E w1))
          else Some (Inr (), w1))"

section \<open>AI helpers\<close>

text \<open>\<open>str(x)\<close> for a value and for an integer, as an f-string formats them.\<close>

fun py_str :: "pyval \<Rightarrow> string" where
  "py_str PNone = ''None''"
| "py_str (PStr s) = s"

function digits :: "nat \<Rightarrow> string" where
  "digits n = (if n < 10 then [char_of (48 + n)] else digits (n div 10) @ [char_of (48 + n mod 10)])"
  by pat_completeness auto

termination
  by (relation "measure id") auto

definition str_int :: "int \<Rightarrow> string" where
  "str_int i = (if i < 0 then ''-'' @ digits (nat (- i)) else digits (nat i))"

definition newline :: string where
  "newline = [CHR 0x0A]"

fun join :: "string \<Rightarrow> string list \<Rightarrow> string" where
  "join sep [] = []"
| "join sep [x] = x"
| "join sep (x # y # ys) = x @ sep @ join sep (y # ys)"

definition finding_line :: "vuln \<Rightarrow> string" where
  "finding_line f =
     ''- '' @ py_str (name f) @ '' ('' @ py_str (risk f) @ '') : '' @ py_str (description f)"

definition summary_prompt :: "vuln list \<Rightarrow> string \<Rightarrow> int \<Rightarrow> string" where
  "summary_prompt findings target level =
     (let trimmed = take 10 findings;
          findings_text = join newline (map finding_line trimmed)
      in newline
         @ ''You are a concise security analyst. A web scan was performed on '' @ target
         @ '' with level '' @ str_int level @ ''.'' @ newline
         @ ''Findings:'' @ newline
         @ findings_text @ newline
         @ newline
         @ ''Please:'' @ newline
         @ ''1) Prioritize the most severe 3 issues and explain their real-world impact in simple language.''
         @ newline
         @ ''2) Give short, practical remediation steps (show code snippets only when relevant).''
         @ newline
         @ ''3) Suggest which issues an attacker would try first.'' @ newline
         @ ''Keep the answer short and actionable.'' @ newline)"

definition ai_analyze :: "'w engine \<Rightarrow> vuln list \<Rightarrow> string \<Rightarrow> int \<Rightarrow> 'w \<Rightarrow> string \<times> 'w" where
  "ai_analyze E findings target level w =
     (case generate E (summary_prompt findings target level) w of
        (Inr text, w1) \<Rightarrow> (text, w1)
      | (Inl e, w1) \<Rightarrow> (''[AI summary unavailable: '' @ e @ '']'', w1))"

section \<open>The scan route\<close>

text \<open>
  The JSON body of a request, typed as the interface documents it: \<open>url\<close> a string and
  \<open>level\<close> an integer, each possibly absent.  The report is the dictionary stored in
  \<open>last_scan\<close> and returned; the store is empty (\<open>None\<close>) or holds one report.
\<close>

record scan_request =
  req_url :: "string option"
  req_level :: "int option"

record report =
  target :: string
  level :: int
  summary :: "(string \<times> nat) list"
  vulnerabilities :: "vuln list"
  ai_summary :: string
  timestamp :: string
  ascan_id :: "string option"

datatype 'a response = Ok200 'a | Err400 string | Err500 string

definition is_space :: "char \<Rightarrow> bool" where
  "is_space c \<longleftrightarrow> c \<in> set [CHR '' '', CHR 0x09, CHR 0x0A, CHR 0x0B, CHR 0x0C, CHR 0x0D]"

definition strip :: "string \<Rightarrow> string" where
  "strip s = rev (dropWhile is_space (rev (dropWhile is_space s)))"

definition waf_finding :: "string \<Rightarrow> raw_finding" where
  "waf_finding tgt =
     [''alert'' \<mapsto> PStr ''Missing WAF/Firewall headers'',
      ''risk'' \<mapsto> PStr ''Medium'',
      ''url'' \<mapsto> PStr tgt,
      ''param'' \<mapsto> PNone,
      ''evidence'' \<mapsto> PNone,
      ''description'' \<mapsto>
        PStr ''Response lacks typical WAF headers indicating a web application firewall.'',
      ''solution'' \<mapsto> PStr ''Deploy a WAF or reverse proxy and add relevant headers.'',
      ''reference'' \<mapsto> PStr ''https://owasp.org/www-project-top-ten/'']"

text \<open>
  The first part of the \<open>try\<close> block: the spider, then for \<open>level >= 2\<close> the active scan and
  the second fetch of the alerts, which replaces the first.
\<close>

definition engine_phase ::
  "nat \<Rightarrow> 'w engine \<Rightarrow> string \<Rightarrow> int \<Rightarrow> 'w
     \<Rightarrow> ((err + raw_finding list \<times> string option) \<times> 'w) option" where
  "engine_phase fuel E tgt lvl w =
     (case spider_and_get_alerts fuel E tgt 60 w of
        None \<Rightarrow> None
      | Some (Inl e, w1) \<Rightarrow> Some (Inl e, w1)
      | Some (Inr alerts, w1) \<Rightarrow>
          if lvl \<ge> 2 then
            (case ascan_scan E tgt w1 of
               (Inl e, w2) \<Rightarrow> Some (Inl e, w2)
             | (Inr aid, w2) \<Rightarrow>
                 (case ascan_poll fuel E aid (time_now E w2) w2 of
                    None \<Rightarrow> None
                  | Some (Inl e, w3) \<Rightarrow> Some (Inl e, w3)
                  | Some (Inr u, w3) \<Rightarrow>
                      (case core_alerts E tgt w3 of
                         (Inl e, w4) \<Rightarrow> Some (Inl e, w4)
                       | (Inr alerts2, w4) \<Rightarrow> Some (Inr (alerts2, Some aid), w4))))
          else Some (Inr (alerts, None), w1))"

definition inject_synthetic :: "int \<Rightarrow> string \<Rightarrow> raw_finding list \<Rightarrow> raw_finding list" where
  "inject_synthetic lvl tgt alerts =
     (if lvl = 3 then alerts @ [waf_finding tgt] else alerts)"

definition build_report ::
  "'w engine \<Rightarrow> string \<Rightarrow> int \<Rightarrow> raw_finding list \<Rightarrow> string option \<Rightarrow> 'w \<Rightarrow> report \<times> 'w" where
  "build_report E tgt lvl alerts aid w =
     (let simplified = simplify_alerts alerts;
          final = finalize simplified
      in case ai_analyze E final tgt lvl w of
           (text, w1) \<Rightarrow>
             (\<lparr>target = tgt, level = lvl, summary = summary_of final, vulnerabilities = final,
               ai_summary = text, timestamp = utcnow E w1, ascan_id = aid\<rparr>, w1))"

definition scan_body ::
  "nat \<Rightarrow> 'w engine \<Rightarrow> string \<Rightarrow> int \<Rightarrow> 'w \<Rightarrow> ((err + report) \<times> 'w) option" where
  "scan_body fuel E tgt lvl w =
     (case engine_phase fuel E tgt lvl w of
        None \<Rightarrow> None
      | Some (Inl e, w1) \<Rightarrow> Some (Inl e, w1)
      | Some (Inr (alerts, aid), w1) \<Rightarrow>
          (case build_report E tgt lvl (inject_synthetic lvl tgt alerts) aid w1 of
             (rep, w2) \<Rightarrow> Some (Inr rep, w2)))"

definition request_target :: "scan_request \<Rightarrow> string" where
  "request_target req = strip (case req_url req of None \<Rightarrow> [] | Some u \<Rightarrow> u)"

definition request_level :: "scan_request \<Rightarrow> int" where
  "request_level req = (case req_level req of None \<Rightarrow> 1 | Some l \<Rightarrow> l)"

definition invalid_url_message :: string where
  "invalid_url_message = ''Invalid or missing URL. Please include http:// or https://''"

definition scan ::
  "nat \<Rightarrow> 'w engine \<Rightarrow> scan_request \<Rightarrow> report option \<Rightarrow> 'w
     \<Rightarrow> (report response \<times> report option \<times> 'w) option" where
  "scan fuel E req last_scan w =
     (let tgt = request_target req; lvl = request_level req in
      if tgt = [] \<or> \<not> valid_url E tgt then Some (Err400 invalid_url_message, last_scan, w)
      else
        (case scan_body fuel E tgt lvl w of
           None \<Rightarrow> None
         | Some (Inl e, w1) \<Rightarrow> Some (Err500 e, last_scan, w1)
         | Some (Inr rep, w1) \<Rightarrow> Some (Ok200 rep, Some rep, w1)))"

section \<open>The chat route\<close>

record chat_request =
  message :: "string option"
  include_scan :: bool

definition summary_repr :: "(string \<times> nat) list \<Rightarrow> string" where
  "summary_repr s =
     ''{'' @ join '', '' (map (\<lambda>(k, n). [CHR 0x27] @ k @ [CHR 0x27] @ '': '' @ digits n) s) @ ''}''"

definition chat_finding_line :: "vuln \<Rightarrow> string" where
  "chat_finding_line v =
     ''- '' @ py_str (name v) @ '' ('' @ py_str (risk v) @ ''): '' @ py_str (description v)
       @ newline"

definition scan_brief :: "report \<Rightarrow> string" where
  "scan_brief r =
     newline @ newline @ ''Latest scan target: '' @ target r @ newline
       @ ''Summary counts: '' @ summary_repr (summary r) @ newline
       @ ''Top findings:'' @ newline
       @ concat (map chat_finding_line (take 8 (vulnerabilities r)))"

definition chat_prompt :: "string \<Rightarrow> bool \<Rightarrow> report option \<Rightarrow> string" where
  "chat_prompt msg inc last_scan =
     (let prompt = ''You are a helpful security assistant. Answer concisely and clearly.''
            @ newline @ ''User: '' @ msg
      in case last_scan of
           Some r \<Rightarrow> if inc then prompt @ scan_brief r else prompt
         | None \<Rightarrow> prompt)"

definition chat ::
  "'w engine \<Rightarrow> chat_request \<Rightarrow> report option \<Rightarrow> 'w \<Rightarrow> string response \<times> 'w" where
  "chat E req last_scan w =
     (let msg = strip (case message req of None \<Rightarrow> [] | Some m \<Rightarrow> m) in
      if msg = [] then (Err400 ''Message cannot be empty'', w)
      else
        (case generate E (chat_prompt msg (include_scan req) last_scan) w of
           (Inr text, w1) \<Rightarrow> (Ok200 text, w1)
         | (Inl e, w1) \<Rightarrow> (Err500 (''AI Chat unavailable: '' @ e), w1)))"

declare digits.simps [simp del]

definition demo_engine :: "raw_finding list \<Rightarrow> err + unit \<Rightarrow> err + string \<Rightarrow> nat engine" where
  "demo_engine alerts opened generated =
     \<lparr>urlopen = \<lambda>u w. (opened, w),
      spider_scan = \<lambda>u w. (Inr ''0'', w),
      spider_status = \<lambda>i w. (Inr 100, w),
      core_alerts = \<lambda>u w. (Inr alerts, w),
      ascan_scan = \<lambda>u w. (Inr ''1'', w),
      ascan_status = \<lambda>i w. (Inr 100, w),
      time_now = int,
      sleep = Suc,
      generate = \<lambda>p w. (generated, w),
      utcnow = \<lambda>w. ''2025-01-01 00:00:00 UTC'',
      valid_url = prefix ''http://''\<rparr>"

definition demo_request :: "int option \<Rightarrow> scan_request" where
  "demo_request l = \<lparr>req_url = Some '' http://a '', req_level = l\<rparr>"

definition demo_report :: "int \<Rightarrow> string option \<Rightarrow> string \<Rightarrow> raw_finding list \<Rightarrow> report" where
  "demo_report lvl aid text alerts =
     \<lparr>target = ''http://a'', level = lvl, summary = summary_of (finalize (simplify_alerts alerts)),
      vulnerabilities = finalize (simplify_alerts alerts), ai_summary = text,
      timestamp = ''2025-01-01 00:00:00 UTC'', ascan_id = aid\<rparr>"

section \<open>The loop body as one update of one entry\<close>

lemma map_other_keys:
  "n \<notin> fst ` set g \<Longrightarrow> map (\<lambda>(k, v). if k = n then (k, h v) else (k, v)) g = g"
  by (induction g) auto

lemma group_update_twice:
  "group_update (group_update g n f) n h = group_update g n (\<lambda>i. h (f i))"
proof (cases "n \<in> fst ` set g")
  case True
  then have "n \<in> fst ` set (map (\<lambda>(k, v). if k = n then (k, f v) else (k, v)) g)"
    by (force simp: image_iff)
  with True show ?thesis
    by (simp add: group_update_def case_prod_unfold comp_def cong: if_cong)
next
  case False
  then show ?thesis
    by (simp add: group_update_def map_other_keys)
qed

lemma group_update_cond:
  "(if c then group_update (group_update g n f) n h else group_update g n f) =
     group_update g n (\<lambda>i. if c then h (f i) else f i)"
  by (simp add: group_update_twice)

lemma alert_step_eq: "alert_step g a = group_update g (resolve_name a) (record_effect a)"
  unfolding alert_step_def record_effect_def Let_def
  by (simp only: group_update_cond)

lemma risk_record_effect: "risk (record_effect a i) = resolve_risk a"
  by (simp add: record_effect_def Let_def)

lemma description_record_effect:
  "description (record_effect a i) = (if truthy (resolve_desc a) then resolve_desc a else description i)"
  by (simp add: record_effect_def Let_def)

lemma urls_record_effect:
  "urls (record_effect a i) = (if truthy (resolve_url a) then urls i @ [resolve_url a] else urls i)"
  by (simp add: record_effect_def Let_def)

lemma params_record_effect:
  "params (record_effect a i) =
     (if truthy (dict_get a ''param'') then params i @ [dict_get a ''param''] else params i)"
  by (simp add: record_effect_def Let_def)

lemma solution_record_effect:
  "solution (record_effect a i) = (if truthy (resolve_solution a) then resolve_solution a else solution i)"
  by (simp add: record_effect_def Let_def)

lemma reference_record_effect:
  "reference (record_effect a i) = (if truthy (resolve_reference a) then resolve_reference a else reference i)"
  by (simp add: record_effect_def Let_def)

lemma fromkeys_Nil: "fromkeys [] = []"
  by (simp add: fromkeys_def)

lemma fromkeys_snoc: "fromkeys (xs @ [x]) = fromkeys_insert (fromkeys xs) x"
  by (simp add: fromkeys_def)

lemma set_fromkeys: "set (fromkeys xs) = set xs"
proof (induction xs rule: rev_induct)
  case Nil
  show ?case by (simp add: fromkeys_Nil)
next
  case (snoc x xs)
  then show ?case by (auto simp: fromkeys_snoc fromkeys_insert_def)
qed

lemma distinct_fromkeys: "distinct (fromkeys xs)"
proof (induction xs rule: rev_induct)
  case Nil
  show ?case by (simp add: fromkeys_Nil)
next
  case (snoc x xs)
  then show ?case by (simp add: fromkeys_snoc fromkeys_insert_def)
qed

lemma first_seen_Nil: "first_seen [] = []"
  by (simp add: first_seen_def)

lemma first_seen_snoc:
  "first_seen (xs @ [x]) = first_seen xs @ (if x \<in> set xs then [] else [x])"
proof -
  let ?P = "\<lambda>i. (xs @ [x]) ! i \<notin> set (take i (xs @ [x]))"
  let ?G = "\<lambda>i. (xs @ [x]) ! i"
  have f: "filter ?P [0..<length xs] = filter (\<lambda>i. xs ! i \<notin> set (take i xs)) [0..<length xs]"
    by (rule filter_cong) (simp_all add: nth_append)
  have m: "map ?G (filter (\<lambda>i. xs ! i \<notin> set (take i xs)) [0..<length xs]) =
        map (\<lambda>i. xs ! i) (filter (\<lambda>i. xs ! i \<notin> set (take i xs)) [0..<length xs])"
    by (rule map_cong) (simp_all add: nth_append)
  have l: "map ?G (filter ?P [length xs]) = (if x \<in> set xs then [] else [x])"
    by simp
  have "first_seen (xs @ [x]) = map ?G (filter ?P ([0..<length xs] @ [length xs]))"
    by (simp add: first_seen_def)
  also have "\<dots> = map ?G (filter ?P [0..<length xs]) @ map ?G (filter ?P [length xs])"
    by (simp only: filter_append map_append)
  also have "\<dots> = first_seen xs @ (if x \<in> set xs then [] else [x])"
    by (simp only: f m l first_seen_def)
  finally show ?thesis .
qed

lemma fromkeys_first_seen: "fromkeys xs = first_seen xs"
proof (induction xs rule: rev_induct)
  case Nil
  show ?case by (simp add: fromkeys_Nil first_seen_Nil)
next
  case (snoc x xs)
  have "fromkeys (xs @ [x]) = fromkeys_insert (first_seen xs) x"
    by (simp only: fromkeys_snoc snoc.IH)
  also have "\<dots> = first_seen xs @ (if x \<in> set xs then [] else [x])"
    using set_fromkeys[of xs] by (simp add: fromkeys_insert_def snoc.IH)
  finally show ?case
    by (simp only: first_seen_snoc)
qed

lemma keys_map_update: "map fst (map (\<lambda>(k, v). if k = n then (k, f v) else (k, v)) g) = map fst g"
  by (induction g) auto

lemma keys_group_update: "map fst (group_update g n f) = fromkeys_insert (map fst g) n"
proof (cases "n \<in> fst ` set g")
  case True
  then show ?thesis
    by (simp only: group_update_def fromkeys_insert_def keys_map_update set_map if_True)
next
  case False
  then show ?thesis
    by (simp add: group_update_def fromkeys_insert_def)
qed

lemma keys_foldl_alert_step:
  "map fst (foldl alert_step g as) = foldl fromkeys_insert (map fst g) (map resolve_name as)"
  by (induction as arbitrary: g) (simp_all add: alert_step_eq keys_group_update)

lemma map_of_map_update:
  "map_of (map (\<lambda>(k, v). if k = n then (k, f v) else (k, v)) g) =
     (map_of g)(n := map_option f (map_of g n))"
  by (induction g) (auto simp: fun_eq_iff)

lemma map_of_group_update:
  "map_of (group_update g n f) = (map_of g)(n \<mapsto> f (group_of g n))"
proof (cases "map_of g n")
  case None
  then have "n \<notin> fst ` set g"
    by (simp add: map_of_eq_None_iff)
  with None show ?thesis
    by (auto simp: group_update_def group_of_def fun_eq_iff map_add_def split: option.splits)
next
  case (Some v)
  then have "n \<in> fst ` set g"
    by (metis map_of_eq_None_iff option.distinct(1))
  with Some show ?thesis
    by (simp add: group_update_def group_of_def map_of_map_update)
qed

lemma group_of_alert_step:
  "group_of (alert_step g a) n =
     (if resolve_name a = n then record_effect a (group_of g n) else group_of g n)"
  by (simp add: alert_step_eq group_of_def map_of_group_update)

lemma group_of_foldl:
  "group_of (foldl alert_step g as) n = fold_effect (group_of g n) (same_name n as)"
  by (induction as arbitrary: g) (simp_all add: group_of_alert_step fold_effect_def same_name_def)

lemma group_of_Nil: "group_of [] n = fresh_info"
  by (simp add: group_of_def)

lemma group_of_entry: "distinct (map fst g) \<Longrightarrow> (n, i) \<in> set g \<Longrightarrow> group_of g n = i"
  by (simp add: group_of_def)

lemma entry_is_group_of:
  assumes "distinct (map fst g)"
  shows "map (\<lambda>n. (n, group_of g n)) (map fst g) = g"
proof -
  have "map (\<lambda>p. (fst p, group_of g (fst p))) g = g"
    by (rule map_idI) (use assms in \<open>auto simp: group_of_entry\<close>)
  then show ?thesis
    by (simp add: comp_def)
qed

lemma simplify_alerts_closed_form:
  "simplify_alerts alerts =
     map (\<lambda>n. emit (n, fold_effect fresh_info (same_name n alerts)))
       (fromkeys (map resolve_name alerts))"
proof -
  let ?g = "foldl alert_step [] alerts"
  have keys: "map fst ?g = fromkeys (map resolve_name alerts)"
    by (simp add: keys_foldl_alert_step fromkeys_def)
  then have "distinct (map fst ?g)"
    by (simp add: distinct_fromkeys)
  then have "?g = map (\<lambda>n. (n, group_of ?g n)) (map fst ?g)"
    by (simp only: entry_is_group_of)
  also have "\<dots> = map (\<lambda>n. (n, fold_effect fresh_info (same_name n alerts)))
                     (fromkeys (map resolve_name alerts))"
    by (simp only: keys group_of_foldl group_of_Nil)
  finally show ?thesis
    by (simp add: simplify_alerts_def comp_def)
qed

lemma fold_effect_Nil: "fold_effect i [] = i"
  by (simp add: fold_effect_def)

lemma fold_effect_snoc: "fold_effect i (as @ [a]) = record_effect a (fold_effect i as)"
  by (simp add: fold_effect_def)

lemma fold_effect_Cons: "fold_effect i (a # as) = fold_effect (record_effect a i) as"
  by (simp add: fold_effect_def)

lemma fold_effect_append: "fold_effect i (as @ bs) = fold_effect (fold_effect i as) bs"
  by (simp add: fold_effect_def)

lemma urls_fold_effect:
  "urls (fold_effect i as) = urls i @ filter truthy (map resolve_url as)"
  by (induction as rule: rev_induct) (simp_all add: fold_effect_Nil fold_effect_snoc urls_record_effect)

lemma params_fold_effect:
  "params (fold_effect i as) = params i @ filter truthy (map (\<lambda>a. dict_get a ''param'') as)"
  by (induction as rule: rev_induct) (simp_all add: fold_effect_Nil fold_effect_snoc params_record_effect)

lemma risk_fold_effect:
  "risk (fold_effect i as) = (if as = [] then risk i else resolve_risk (last as))"
  by (induction as rule: rev_induct) (simp_all add: fold_effect_Nil fold_effect_snoc risk_record_effect)

lemma simplify_alerts_names:
  "map name (simplify_alerts alerts) = fromkeys (map resolve_name alerts)"
  by (simp add: simplify_alerts_closed_form emit_def comp_def)

lemma simplify_alerts_member:
  assumes "f \<in> set (simplify_alerts alerts)"
  shows "f = emit (name f, fold_effect fresh_info (same_name (name f) alerts))"
    and "name f \<in> resolve_name ` set alerts"
proof -
  from assms obtain n where n: "n \<in> set (fromkeys (map resolve_name alerts))"
    and f: "f = emit (n, fold_effect fresh_info (same_name n alerts))"
    by (auto simp: simplify_alerts_closed_form)
  from f have "name f = n"
    by (simp add: emit_def)
  with f show "f = emit (name f, fold_effect fresh_info (same_name (name f) alerts))"
    by simp
  from n \<open>name f = n\<close> show "name f \<in> resolve_name ` set alerts"
    by (simp add: set_fromkeys)
qed

lemma urls_emit: "urls (emit (n, i)) = fromkeys (urls i)"
  by (simp add: emit_def)

lemma params_emit: "params (emit (n, i)) = fromkeys (params i)"
  by (simp add: emit_def)

lemma risk_emit: "risk (emit (n, i)) = risk i"
  by (simp add: emit_def)

lemma description_emit: "description (emit (n, i)) = description i"
  by (simp add: emit_def)

lemma urls_fresh: "urls fresh_info = []" and params_fresh: "params fresh_info = []"
  by (simp_all add: fresh_info_def)

lemma simplify_alerts_urls:
  assumes "f \<in> set (simplify_alerts alerts)"
  shows "urls f = fromkeys (group_urls (name f) alerts)"
proof -
  have "urls f = urls (emit (name f, fold_effect fresh_info (same_name (name f) alerts)))"
    using simplify_alerts_member(1)[OF assms] by simp
  then show ?thesis
    by (simp add: urls_emit urls_fold_effect urls_fresh group_urls_def)
qed

lemma simplify_alerts_params:
  assumes "f \<in> set (simplify_alerts alerts)"
  shows "params f = fromkeys (group_params (name f) alerts)"
proof -
  have "params f = params (emit (name f, fold_effect fresh_info (same_name (name f) alerts)))"
    using simplify_alerts_member(1)[OF assms] by simp
  then show ?thesis
    by (simp add: params_emit params_fold_effect params_fresh group_params_def)
qed

text \<open>
  C5: the normalizer emits exactly one group per distinct resolved name (alert, then name,
  else "Unknown"), in first-seen order of the names; within each group the urls and the params
  are the group's values in first-seen order, without duplicates.
\<close>

theorem one_group_per_name:
  "map name (simplify_alerts alerts) = first_seen (map resolve_name alerts)
   \<and> distinct (map name (simplify_alerts alerts))
   \<and> set (map name (simplify_alerts alerts)) = resolve_name ` set alerts
   \<and> length (simplify_alerts alerts) = card (resolve_name ` set alerts)
   \<and> (\<forall>f \<in> set (simplify_alerts alerts).
         urls f = first_seen (group_urls (name f) alerts) \<and> distinct (urls f)
         \<and> params f = first_seen (group_params (name f) alerts) \<and> distinct (params f))"
proof -
  have names: "map name (simplify_alerts alerts) = fromkeys (map resolve_name alerts)"
    by (rule simplify_alerts_names)
  have d: "distinct (map name (simplify_alerts alerts))"
    by (simp only: names distinct_fromkeys)
  have s: "set (map name (simplify_alerts alerts)) = resolve_name ` set alerts"
    by (simp only: names set_fromkeys set_map)
  have "length (simplify_alerts alerts) = length (map name (simplify_alerts alerts))"
    by simp
  also have "\<dots> = card (set (map name (simplify_alerts alerts)))"
    using d by (simp only: distinct_card)
  finally have l: "length (simplify_alerts alerts) = card (resolve_name ` set alerts)"
    by (simp only: s)
  have g: "\<forall>f \<in> set (simplify_alerts alerts).
         urls f = first_seen (group_urls (name f) alerts) \<and> distinct (urls f)
         \<and> params f = first_seen (group_params (name f) alerts) \<and> distinct (params f)"
    by (simp add: simplify_alerts_urls simplify_alerts_params fromkeys_first_seen[symmetric]
        distinct_fromkeys)
  from names d s l g show ?thesis
    by (simp only: fromkeys_first_seen simp_thms)
qed

lemma fromkeys_insert_twice:
  "fromkeys_insert (fromkeys_insert s x) x = fromkeys_insert s x"
  by (simp add: fromkeys_insert_def)

lemma fromkeys_append: "fromkeys (xs @ ys) = foldl fromkeys_insert (fromkeys xs) ys"
  by (simp add: fromkeys_def)

lemma fromkeys_dup: "fromkeys (xs @ x # x # ys) = fromkeys (xs @ x # ys)"
  by (simp add: fromkeys_append fromkeys_insert_twice)

lemma fromkeys_snoc_twice: "fromkeys (xs @ [x, x]) = fromkeys_insert (fromkeys xs) x"
  by (simp add: fromkeys_append fromkeys_insert_twice)

lemma info_equiv_refl: "info_equiv i i"
  by (simp add: info_equiv_def)

lemma info_equiv_record_effect:
  assumes "info_equiv i j"
  shows "info_equiv (record_effect a i) (record_effect a j)"
  using assms
  by (simp add: info_equiv_def risk_record_effect description_record_effect
      solution_record_effect reference_record_effect urls_record_effect params_record_effect
      fromkeys_snoc)

lemma info_equiv_twice: "info_equiv (record_effect a (record_effect a i)) (record_effect a i)"
  by (simp add: info_equiv_def risk_record_effect description_record_effect
      solution_record_effect reference_record_effect urls_record_effect params_record_effect
      fromkeys_snoc fromkeys_snoc_twice)

lemma info_equiv_fold_effect:
  "info_equiv i j \<Longrightarrow> info_equiv (fold_effect i as) (fold_effect j as)"
  by (induction as arbitrary: i j) (simp_all add: fold_effect_Nil fold_effect_Cons info_equiv_record_effect)

lemma emit_info_equiv: "info_equiv i j \<Longrightarrow> emit (n, i) = emit (n, j)"
  by (simp add: info_equiv_def emit_def)

lemma same_name_dup:
  "fold_effect i (same_name n (xs @ r # r # ys)) =
     (if resolve_name r = n
      then fold_effect (record_effect r (record_effect r (fold_effect i (same_name n xs)))) (same_name n ys)
      else fold_effect (fold_effect i (same_name n xs)) (same_name n ys))"
  by (simp add: same_name_def fold_effect_append fold_effect_Cons)

lemma same_name_single:
  "fold_effect i (same_name n (xs @ r # ys)) =
     (if resolve_name r = n
      then fold_effect (record_effect r (fold_effect i (same_name n xs))) (same_name n ys)
      else fold_effect (fold_effect i (same_name n xs)) (same_name n ys))"
  by (simp add: same_name_def fold_effect_append fold_effect_Cons)

lemma fold_effect_dup_equiv:
  "info_equiv (fold_effect i (same_name n (xs @ r # r # ys))) (fold_effect i (same_name n (xs @ r # ys)))"
proof (cases "resolve_name r = n")
  case True
  have "info_equiv
          (fold_effect (record_effect r (record_effect r (fold_effect i (same_name n xs)))) (same_name n ys))
          (fold_effect (record_effect r (fold_effect i (same_name n xs))) (same_name n ys))"
    by (rule info_equiv_fold_effect) (rule info_equiv_twice)
  with True show ?thesis
    by (simp only: same_name_dup[of i n xs r ys] same_name_single[of i n xs r ys] simp_thms if_True)
next
  case False
  then show ?thesis
    by (simp only: same_name_dup[of i n xs r ys] same_name_single[of i n xs r ys] simp_thms if_False
        info_equiv_refl)
qed

text \<open>
  C7: a second, identical copy of a record right after the record changes nothing in the
  grouped output.
\<close>

theorem duplicate_record_idempotent:
  "simplify_alerts (xs @ r # r # ys) = simplify_alerts (xs @ r # ys)"
proof -
  have "map resolve_name (xs @ r # r # ys) = map resolve_name xs @ resolve_name r # resolve_name r # map resolve_name ys"
    by simp
  then have keys: "fromkeys (map resolve_name (xs @ r # r # ys)) = fromkeys (map resolve_name (xs @ r # ys))"
    by (simp add: fromkeys_dup)
  have "\<And>n. emit (n, fold_effect fresh_info (same_name n (xs @ r # r # ys))) =
            emit (n, fold_effect fresh_info (same_name n (xs @ r # ys)))"
    by (rule emit_info_equiv) (rule fold_effect_dup_equiv)
  with keys show ?thesis
    by (simp only: simplify_alerts_closed_form)
qed

lemma group_update_Nil: "group_update [] n f = [(n, f fresh_info)]"
  by (simp add: group_update_def)

lemma group_update_Cons:
  "group_update ((k, v) # g) n f =
     (if k = n then (k, f v) # map (\<lambda>(k, v). if k = n then (k, f v) else (k, v)) g
      else (k, v) # group_update g n f)"
  by (auto simp: group_update_def)

lemmas resolve_defs = resolve_name_def resolve_risk_def resolve_desc_def resolve_solution_def
  resolve_reference_def resolve_url_def dict_get_def py_or_def

lemmas normalizer_eval = simplify_alerts_def alert_step_eq group_update_Nil group_update_Cons
  resolve_defs emit_def fromkeys_def fromkeys_insert_def fresh_info_def record_effect_def

lemmas scoring_eval = finalize_def add_score_def enrich_suggestions_def risk_to_score_def
  score_mapping_def CUSTOM_SUGGESTIONS_def lower_def lower_char_def py_or_def

lemmas bucket_eval = summary_of_def severity_groups_def bucket_conds_def buckets_of_def

lemma scenario_simplified:
  "simplify_alerts scenario_alerts =
     [\<lparr>urls = [PStr ''http://a/x'', PStr ''http://a/y''], params = [], risk = PStr ''High'',
       description = PStr ''http://a/y'', solution = PStr [], reference = PStr [],
       name = PStr ''XSS''\<rparr>,
      \<lparr>urls = [], params = [], risk = PStr ''Critical'', description = PStr [],
       solution = PStr [], reference = PStr [], name = PStr ''SQLi''\<rparr>]"
  by (simp add: scenario_alerts_def normalizer_eval)

lemma scenario_final:
  "finalize (simplify_alerts scenario_alerts) =
     [\<lparr>urls = [PStr ''http://a/x'', PStr ''http://a/y''], params = [], risk = PStr ''High'',
       description = PStr ''http://a/y'', solution = PStr [], reference = PStr [],
       name = PStr ''XSS'', score = 9, extra_suggestion = None\<rparr>,
      \<lparr>urls = [], params = [], risk = PStr ''Critical'', description = PStr [],
       solution = PStr [], reference = PStr [], name = PStr ''SQLi'', score = 10,
       extra_suggestion = None\<rparr>]"
  unfolding scenario_simplified by (simp add: scoring_eval)

lemmas example_defs = finding_with_risk_def finding_with_desc_def finding_url_only_def
  finding_uri_only_def

lemma risk_then_none_simplified:
  "simplify_alerts [finding_with_risk, finding_url_only] =
     [\<lparr>urls = [PStr ''http://a/x''], params = [], risk = PStr ''Informational'',
       description = PStr ''http://a/x'', solution = PStr [], reference = PStr [],
       name = PStr ''A''\<rparr>]"
  by (simp add: example_defs normalizer_eval)

lemma desc_then_url_simplified:
  "simplify_alerts [finding_with_desc, finding_url_only] =
     [\<lparr>urls = [PStr ''http://a/x''], params = [], risk = PStr ''Informational'',
       description = PStr ''http://a/x'', solution = PStr [], reference = PStr [],
       name = PStr ''A''\<rparr>]"
  by (simp add: example_defs normalizer_eval)

lemma desc_only_simplified:
  "simplify_alerts [finding_with_desc] =
     [\<lparr>urls = [], params = [], risk = PStr ''Informational'',
       description = PStr ''D'', solution = PStr [], reference = PStr [],
       name = PStr ''A''\<rparr>]"
  by (simp add: example_defs normalizer_eval)

lemma spec_risk_example:
  "spec_last_nonempty_risk (PStr ''A'') [finding_with_risk, finding_url_only] = PStr ''High''"
  by (simp add: spec_last_nonempty_risk_def same_name_def raw_risk_def example_defs resolve_defs)

lemma resolve_name_examples:
  "resolve_name finding_with_risk = PStr ''A''" "resolve_name finding_with_desc = PStr ''A''"
  "resolve_name finding_url_only = PStr ''A''" "resolve_name finding_uri_only = PStr ''A''"
  by (simp_all add: example_defs resolve_defs)

lemma step_with_risk:
  "alert_step [] finding_with_risk =
     [(PStr ''A'', \<lparr>urls = [], params = [], risk = PStr ''High'', description = PStr [],
         solution = PStr [], reference = PStr []\<rparr>)]"
  by (simp add: example_defs alert_step_eq group_update_Nil resolve_defs record_effect_def
      fresh_info_def)

lemma step_with_desc:
  "alert_step [] finding_with_desc =
     [(PStr ''A'', \<lparr>urls = [], params = [], risk = PStr ''Informational'',
         description = PStr ''D'', solution = PStr [], reference = PStr []\<rparr>)]"
  by (simp add: example_defs alert_step_eq group_update_Nil resolve_defs record_effect_def
      fresh_info_def)

lemma sum_summary: "sum_list (map snd (summary_of final)) = length final"
  by (induction final) (auto simp: bucket_eval)

lemma buckets_of_eq:
  "buckets_of s =
     [if s \<ge> 9 then ''Critical'' else if s \<ge> 6 then ''High'' else if s \<ge> 3 then ''Medium''
      else ''Low'']"
  by (simp add: bucket_eval)

lemma risk_to_score_other:
  "r \<notin> {PStr ''Critical'', PStr ''High'', PStr ''Medium'', PStr ''Low'', PStr ''Informational''}
     \<Longrightarrow> risk_to_score r = 0"
  by (simp add: risk_to_score_def score_mapping_def)

lemma risk_to_score_table:
  "risk_to_score (PStr ''Critical'') = 10" "risk_to_score (PStr ''High'') = 9"
  "risk_to_score (PStr ''Medium'') = 6" "risk_to_score (PStr ''Low'') = 3"
  "risk_to_score (PStr ''Informational'') = 1"
  by (simp_all add: risk_to_score_def score_mapping_def)

lemma name_finalize: "name (enrich_suggestions (add_score a)) = name a"
  by (simp add: enrich_suggestions_def add_score_def split: option.splits prod.splits)

lemma risk_finalize: "risk (enrich_suggestions (add_score a)) = risk a"
  by (simp add: enrich_suggestions_def add_score_def split: option.splits prod.splits)

lemma score_finalize: "score (enrich_suggestions (add_score a)) = risk_to_score (risk a)"
  by (simp add: enrich_suggestions_def add_score_def split: option.splits prod.splits)

lemma simplify_alerts_risk:
  assumes "f \<in> set (simplify_alerts alerts)"
  shows "risk f = resolve_risk (last (same_name (name f) alerts))"
proof -
  have "name f \<in> resolve_name ` set alerts"
    by (rule simplify_alerts_member(2)[OF assms])
  then have ne: "same_name (name f) alerts \<noteq> []"
    by (auto simp: same_name_def filter_empty_conv)
  have "risk f = risk (emit (name f, fold_effect fresh_info (same_name (name f) alerts)))"
    using simplify_alerts_member(1)[OF assms] by simp
  with ne show ?thesis
    by (simp add: risk_emit risk_fold_effect)
qed

lemma resolve_risk_default:
  assumes "\<not> truthy (dict_get a ''risk'')" "\<not> truthy (dict_get a ''riskdesc'')"
    "\<not> truthy (dict_get a ''severity'')"
  shows "resolve_risk a = PStr ''Informational''"
  using assms by (simp add: resolve_risk_def py_or_def)

lemma keys_alert_step: "resolve_name a \<in> fst ` set (alert_step g a)"
proof -
  have "resolve_name a \<in> set (map fst (alert_step g a))"
    by (simp only: alert_step_eq keys_group_update) (simp add: fromkeys_insert_def)
  then show ?thesis by simp
qed

text \<open>
  C1 (amended): the three raw findings of the scenario normalize to 2 findings; "XSS" has
  both urls and score 9, "SQLi" has score 10; both scores are at least 9, so both findings
  fall in the bucket Critical and the summary is Critical 2, High 0, Medium 0, Low 0.
\<close>

theorem scenario_end_to_end:
  "length (simplify_alerts scenario_alerts) = 2
   \<and> map name (finalize (simplify_alerts scenario_alerts)) = [PStr ''XSS'', PStr ''SQLi'']
   \<and> map urls (finalize (simplify_alerts scenario_alerts)) =
        [[PStr ''http://a/x'', PStr ''http://a/y''], []]
   \<and> map score (finalize (simplify_alerts scenario_alerts)) = [9, 10]
   \<and> map (\<lambda>v. buckets_of (score v)) (finalize (simplify_alerts scenario_alerts)) =
        [[''Critical''], [''Critical'']]
   \<and> summary_of (finalize (simplify_alerts scenario_alerts)) =
        [(''Critical'', 2), (''High'', 0), (''Medium'', 0), (''Low'', 0)]"
proof -
  have "length (simplify_alerts scenario_alerts) = 2"
    by (simp add: scenario_simplified)
  then show ?thesis
    unfolding scenario_final by (simp add: bucket_eval)
qed

text \<open>
  C1 as stated fails: the "XSS" finding is not in the bucket High and the summary is not
  Critical 1, High 1, Medium 0, Low 0.
\<close>

theorem scenario_claimed_buckets_counterexample:
  "buckets_of (score (hd (finalize (simplify_alerts scenario_alerts)))) \<noteq> [''High'']
   \<and> summary_of (finalize (simplify_alerts scenario_alerts)) \<noteq>
        [(''Critical'', 1), (''High'', 1), (''Medium'', 0), (''Low'', 0)]"
  by (simp add: scenario_final bucket_eval)

text \<open>
  C6: \<open>risk_to_score\<close> maps the five labels to 10, 9, 6, 3, 1 and every other value to 0;
  every integer score meets the condition of exactly one bucket, so the summary counts every
  finding once.
\<close>

theorem severity_model_total_and_partition:
  "risk_to_score (PStr ''Critical'') = 10 \<and> risk_to_score (PStr ''High'') = 9
   \<and> risk_to_score (PStr ''Medium'') = 6 \<and> risk_to_score (PStr ''Low'') = 3
   \<and> risk_to_score (PStr ''Informational'') = 1
   \<and> (r \<notin> {PStr ''Critical'', PStr ''High'', PStr ''Medium'', PStr ''Low'', PStr ''Informational''}
        \<longrightarrow> risk_to_score r = 0)
   \<and> buckets_of s =
        [if s \<ge> 9 then ''Critical'' else if s \<ge> 6 then ''High'' else if s \<ge> 3 then ''Medium''
         else ''Low'']
   \<and> length (buckets_of s) = 1
   \<and> sum_list (map snd (summary_of final)) = length final"
  by (simp add: risk_to_score_table risk_to_score_other buckets_of_eq sum_summary)

text \<open>C6 at an unknown label and at the scores 0 to 10.\<close>

theorem severity_model_total_and_partition_witness:
  "PStr ''Unknown'' \<notin> {PStr ''Critical'', PStr ''High'', PStr ''Medium'', PStr ''Low'', PStr ''Informational''}
   \<and> risk_to_score (PStr ''Unknown'') = 0
   \<and> map buckets_of [0, 1, 2, 3, 4, 5, 6, 7, 8, 9, 10] =
        [[''Low''], [''Low''], [''Low''], [''Medium''], [''Medium''], [''Medium''],
         [''High''], [''High''], [''High''], [''Critical''], [''Critical'']]
   \<and> sum_list (map snd (summary_of (finalize (simplify_alerts scenario_alerts)))) = 2"
  using severity_model_total_and_partition[of "PStr ''Unknown''" 0 "finalize (simplify_alerts scenario_alerts)"]
    severity_model_total_and_partition[of "PStr ''Unknown''" 1 "[]"]
    severity_model_total_and_partition[of "PStr ''Unknown''" 2 "[]"]
    severity_model_total_and_partition[of "PStr ''Unknown''" 3 "[]"]
    severity_model_total_and_partition[of "PStr ''Unknown''" 4 "[]"]
    severity_model_total_and_partition[of "PStr ''Unknown''" 5 "[]"]
    severity_model_total_and_partition[of "PStr ''Unknown''" 6 "[]"]
    severity_model_total_and_partition[of "PStr ''Unknown''" 7 "[]"]
    severity_model_total_and_partition[of "PStr ''Unknown''" 8 "[]"]
    severity_model_total_and_partition[of "PStr ''Unknown''" 9 "[]"]
    severity_model_total_and_partition[of "PStr ''Unknown''" 10 "[]"]
  by (simp add: scenario_final)

text \<open>
  C3 (amended): the risk of each normalized finding is the risk resolved from the last raw
  record of its name: that record's first non-empty value among risk, riskdesc and severity,
  and "Informational" when it has none.
\<close>

theorem risk_of_last_record:
  "\<forall>f \<in> set (simplify_alerts alerts). risk f = resolve_risk (last (same_name (name f) alerts))"
  by (simp add: simplify_alerts_risk)

text \<open>C3 (amended) on a record with risk High followed by one of the same name without risk.\<close>

theorem risk_of_last_record_witness:
  "simplify_alerts [finding_with_risk, finding_url_only] \<noteq> []
   \<and> list_all (\<lambda>f. risk f = resolve_risk (last (same_name (name f) [finding_with_risk, finding_url_only])))
        (simplify_alerts [finding_with_risk, finding_url_only])
   \<and> map risk (simplify_alerts [finding_with_risk, finding_url_only]) = [PStr ''Informational'']"
proof -
  have "list_all (\<lambda>f. risk f = resolve_risk (last (same_name (name f) [finding_with_risk, finding_url_only])))
        (simplify_alerts [finding_with_risk, finding_url_only])"
    using risk_of_last_record[of "[finding_with_risk, finding_url_only]"]
    by (simp only: list_all_iff)
  then show ?thesis
    by (simp add: risk_then_none_simplified)
qed

text \<open>
  C3 as stated fails: the last non-empty risk label of group "A" is High, the stored risk is
  Informational.
\<close>

theorem last_nonempty_risk_counterexample:
  "name (hd (simplify_alerts [finding_with_risk, finding_url_only])) = PStr ''A''
   \<and> spec_last_nonempty_risk (PStr ''A'') [finding_with_risk, finding_url_only] = PStr ''High''
   \<and> risk (hd (simplify_alerts [finding_with_risk, finding_url_only])) = PStr ''Informational''"
  by (simp add: risk_then_none_simplified spec_risk_example)

text \<open>
  C10: a record without a non-empty risk, riskdesc or severity sets the risk of its group to
  "Informational", whatever the group held before; when it is the last record of its name the
  finding has risk "Informational", score 1 and bucket Low.
\<close>

theorem missing_risk_defaults_to_informational:
  assumes "\<not> truthy (dict_get a ''risk'')" "\<not> truthy (dict_get a ''riskdesc'')"
    "\<not> truthy (dict_get a ''severity'')"
  shows "risk (group_of (alert_step g a) (resolve_name a)) = PStr ''Informational''
   \<and> risk_to_score (PStr ''Informational'') = 1 \<and> buckets_of 1 = [''Low'']
   \<and> (same_name (resolve_name a) ys = [] \<longrightarrow>
        resolve_name a \<in> name ` set (finalize (simplify_alerts (xs @ a # ys)))
        \<and> (\<forall>f \<in> set (finalize (simplify_alerts (xs @ a # ys))). name f = resolve_name a \<longrightarrow>
              risk f = PStr ''Informational'' \<and> score f = 1 \<and> buckets_of (score f) = [''Low'']))"
proof -
  have r: "resolve_risk a = PStr ''Informational''"
    by (rule resolve_risk_default[OF assms])
  have step: "risk (group_of (alert_step g a) (resolve_name a)) = PStr ''Informational''"
    by (simp add: group_of_alert_step risk_record_effect r)
  have b: "buckets_of 1 = [''Low'']"
    by (simp add: buckets_of_eq)
  have e2e: "resolve_name a \<in> name ` set (finalize (simplify_alerts (xs @ a # ys)))
        \<and> (\<forall>f \<in> set (finalize (simplify_alerts (xs @ a # ys))). name f = resolve_name a \<longrightarrow>
              risk f = PStr ''Informational'' \<and> score f = 1 \<and> buckets_of (score f) = [''Low''])"
    if last: "same_name (resolve_name a) ys = []"
  proof
    have "resolve_name a \<in> set (map name (simplify_alerts (xs @ a # ys)))"
      by (simp only: simplify_alerts_names set_fromkeys) simp
    then obtain f0 where "f0 \<in> set (simplify_alerts (xs @ a # ys))" "name f0 = resolve_name a"
      by auto
    then show "resolve_name a \<in> name ` set (finalize (simplify_alerts (xs @ a # ys)))"
      by (force simp: finalize_def name_finalize image_iff)
  next
    show "\<forall>f \<in> set (finalize (simplify_alerts (xs @ a # ys))). name f = resolve_name a \<longrightarrow>
              risk f = PStr ''Informational'' \<and> score f = 1 \<and> buckets_of (score f) = [''Low'']"
    proof (intro ballI impI)
      fix f assume f: "f \<in> set (finalize (simplify_alerts (xs @ a # ys)))"
        and n: "name f = resolve_name a"
      from f obtain f0 where f0: "f0 \<in> set (simplify_alerts (xs @ a # ys))"
        and ff: "f = enrich_suggestions (add_score f0)"
        by (auto simp: finalize_def)
      from n ff have n0: "name f0 = resolve_name a"
        by (simp add: name_finalize)
      have "same_name (resolve_name a) (xs @ a # ys) = same_name (resolve_name a) xs @ [a]"
        using last by (simp add: same_name_def)
      then have "risk f0 = PStr ''Informational''"
        using simplify_alerts_risk[OF f0] n0 r by simp
      then show "risk f = PStr ''Informational'' \<and> score f = 1 \<and> buckets_of (score f) = [''Low'']"
        by (simp add: ff risk_finalize score_finalize risk_to_score_table b)
    qed
  qed
  from step b e2e show ?thesis
    by (simp add: risk_to_score_table)
qed

text \<open>C10 on a group that held risk High.\<close>

theorem missing_risk_defaults_to_informational_witness:
  "\<not> truthy (dict_get finding_url_only ''risk'')
   \<and> \<not> truthy (dict_get finding_url_only ''riskdesc'')
   \<and> \<not> truthy (dict_get finding_url_only ''severity'')
   \<and> same_name (resolve_name finding_url_only) [] = []
   \<and> risk (group_of (alert_step [] finding_with_risk) (resolve_name finding_url_only)) = PStr ''High''
   \<and> risk (group_of (alert_step (alert_step [] finding_with_risk) finding_url_only)
             (resolve_name finding_url_only)) = PStr ''Informational''
   \<and> resolve_name finding_url_only
        \<in> name ` set (finalize (simplify_alerts ([finding_with_risk] @ finding_url_only # [])))
   \<and> list_all (\<lambda>f. name f = resolve_name finding_url_only \<longrightarrow>
          risk f = PStr ''Informational'' \<and> score f = 1 \<and> buckets_of (score f) = [''Low''])
        (finalize (simplify_alerts ([finding_with_risk] @ finding_url_only # [])))"
proof -
  have h1: "\<not> truthy (dict_get finding_url_only ''risk'')"
    and h2: "\<not> truthy (dict_get finding_url_only ''riskdesc'')"
    and h3: "\<not> truthy (dict_get finding_url_only ''severity'')"
    by (simp_all add: example_defs dict_get_def)
  have h4: "same_name (resolve_name finding_url_only) [] = []"
    by (simp add: same_name_def)
  have prior: "risk (group_of (alert_step [] finding_with_risk) (resolve_name finding_url_only))
        = PStr ''High''"
    by (simp add: step_with_risk resolve_name_examples group_of_def)
  show ?thesis
    unfolding list_all_iff
    using missing_risk_defaults_to_informational[OF h1 h2 h3,
        of "alert_step [] finding_with_risk" "[]" "[finding_with_risk]"]
      h1 h2 h3 h4 prior
    by blast
qed

text \<open>C5 on the three findings of the scenario: two groups, in first-seen order.\<close>

theorem one_group_per_name_witness:
  "map name (simplify_alerts scenario_alerts) = [PStr ''XSS'', PStr ''SQLi'']
   \<and> first_seen (map resolve_name scenario_alerts) = [PStr ''XSS'', PStr ''SQLi'']
   \<and> card (resolve_name ` set scenario_alerts) = 2
   \<and> list_all (\<lambda>f. urls f = first_seen (group_urls (name f) scenario_alerts) \<and> distinct (urls f)
         \<and> params f = first_seen (group_params (name f) scenario_alerts) \<and> distinct (params f))
        (simplify_alerts scenario_alerts)
   \<and> map urls (simplify_alerts scenario_alerts) = [[PStr ''http://a/x'', PStr ''http://a/y''], []]"
proof -
  note t = one_group_per_name[of scenario_alerts]
  have n: "map name (simplify_alerts scenario_alerts) = [PStr ''XSS'', PStr ''SQLi'']"
    and u: "map urls (simplify_alerts scenario_alerts) = [[PStr ''http://a/x'', PStr ''http://a/y''], []]"
    and l: "length (simplify_alerts scenario_alerts) = 2"
    by (simp_all add: scenario_simplified)
  from t n have f: "first_seen (map resolve_name scenario_alerts) = [PStr ''XSS'', PStr ''SQLi'']"
    by simp
  from t l have c: "card (resolve_name ` set scenario_alerts) = 2"
    by simp
  from t have a: "list_all (\<lambda>f. urls f = first_seen (group_urls (name f) scenario_alerts) \<and> distinct (urls f)
         \<and> params f = first_seen (group_params (name f) scenario_alerts) \<and> distinct (params f))
        (simplify_alerts scenario_alerts)"
    unfolding list_all_iff by blast
  from n f c a u show ?thesis
    by (simp only: simp_thms)
qed

lemma resolve_desc_no_keys:
  assumes "\<not> truthy (dict_get a ''description'')" "\<not> truthy (dict_get a ''desc'')"
    "\<not> truthy (dict_get a ''evidence'')"
  shows "resolve_desc a = (if truthy (dict_get a ''url'') then dict_get a ''url'' else PStr [])"
  using assms by (simp add: resolve_desc_def py_or_def)

text \<open>
  C2 (amended): a record that carries a url and no description, desc or evidence creates or
  extends the group of its name and appends its url; the group's description becomes the
  value under the key url when that is non-empty (the fourth description candidate), and
  stays what it was otherwise (the url came under the key uri).
\<close>

theorem url_only_record_description:
  assumes "\<not> truthy (dict_get a ''description'')" "\<not> truthy (dict_get a ''desc'')"
    "\<not> truthy (dict_get a ''evidence'')" "truthy (resolve_url a)"
  shows "resolve_name a \<in> fst ` set (alert_step g a)
   \<and> urls (group_of (alert_step g a) (resolve_name a)) =
        urls (group_of g (resolve_name a)) @ [resolve_url a]
   \<and> description (group_of (alert_step g a) (resolve_name a)) =
        (if truthy (dict_get a ''url'') then dict_get a ''url''
         else description (group_of g (resolve_name a)))"
proof -
  have d: "resolve_desc a = (if truthy (dict_get a ''url'') then dict_get a ''url'' else PStr [])"
    by (rule resolve_desc_no_keys) (use assms in simp_all)
  show ?thesis
    using assms(4)
    by (simp add: keys_alert_step group_of_alert_step urls_record_effect
        description_record_effect d)
qed

text \<open>C2 (amended) on a record with key url and on a record with key uri.\<close>

theorem url_only_record_description_witness:
  "\<not> truthy (dict_get finding_url_only ''description'') \<and> \<not> truthy (dict_get finding_url_only ''desc'')
   \<and> \<not> truthy (dict_get finding_url_only ''evidence'') \<and> truthy (resolve_url finding_url_only)
   \<and> resolve_name finding_url_only \<in> fst ` set (alert_step (alert_step [] finding_with_desc) finding_url_only)
   \<and> description (group_of (alert_step (alert_step [] finding_with_desc) finding_url_only)
        (resolve_name finding_url_only)) = PStr ''http://a/x''
   \<and> \<not> truthy (dict_get finding_uri_only ''description'') \<and> \<not> truthy (dict_get finding_uri_only ''desc'')
   \<and> \<not> truthy (dict_get finding_uri_only ''evidence'') \<and> truthy (resolve_url finding_uri_only)
   \<and> description (group_of (alert_step (alert_step [] finding_with_desc) finding_uri_only)
        (resolve_name finding_uri_only)) = PStr ''D''
   \<and> urls (group_of (alert_step (alert_step [] finding_with_desc) finding_uri_only)
        (resolve_name finding_uri_only)) = [PStr ''http://a/y'']"
proof -
  have a: "\<not> truthy (dict_get finding_url_only ''description'')"
    "\<not> truthy (dict_get finding_url_only ''desc'')"
    "\<not> truthy (dict_get finding_url_only ''evidence'')" "truthy (resolve_url finding_url_only)"
    by (simp_all add: example_defs resolve_defs)
  have b: "\<not> truthy (dict_get finding_uri_only ''description'')"
    "\<not> truthy (dict_get finding_uri_only ''desc'')"
    "\<not> truthy (dict_get finding_uri_only ''evidence'')" "truthy (resolve_url finding_uri_only)"
    by (simp_all add: example_defs resolve_defs)
  have v: "dict_get finding_url_only ''url'' = PStr ''http://a/x''"
    "dict_get finding_uri_only ''url'' = PNone" "resolve_url finding_uri_only = PStr ''http://a/y''"
    by (simp_all add: example_defs resolve_defs)
  have w: "description (group_of (alert_step [] finding_with_desc) (PStr ''A'')) = PStr ''D''"
    "urls (group_of (alert_step [] finding_with_desc) (PStr ''A'')) = []"
    by (simp_all add: step_with_desc group_of_def)
  show ?thesis
    using url_only_record_description[OF a, of "alert_step [] finding_with_desc"]
      url_only_record_description[OF b, of "alert_step [] finding_with_desc"] a b v w
    by (simp add: resolve_name_examples)
qed

text \<open>
  C2 as stated fails: after a record with description "D", a record of the same name with
  only a url changes the description to that url.
\<close>

theorem url_only_keeps_description_counterexample:
  "truthy (resolve_url finding_url_only)
   \<and> \<not> truthy (dict_get finding_url_only ''description'') \<and> \<not> truthy (dict_get finding_url_only ''desc'')
   \<and> \<not> truthy (dict_get finding_url_only ''evidence'')
   \<and> resolve_name finding_with_desc = resolve_name finding_url_only
   \<and> map description (simplify_alerts [finding_with_desc]) = [PStr ''D'']
   \<and> map description (simplify_alerts [finding_with_desc, finding_url_only]) = [PStr ''http://a/x'']"
  by (simp add: desc_only_simplified desc_then_url_simplified resolve_name_examples)
    (simp add: example_defs resolve_defs)

lemma demo_target: "request_target (demo_request l) = ''http://a''"
  by (simp add: request_target_def demo_request_def strip_def is_space_def)

lemma demo_level: "request_level (demo_request l) = (case l of None \<Rightarrow> 1 | Some i \<Rightarrow> i)"
  by (simp add: request_level_def demo_request_def)

lemma demo_spider:
  "spider_and_get_alerts (Suc 0) (demo_engine alerts (Inr ()) g) ''http://a'' 60 0 =
     Some (Inr alerts, 2)"
  by (simp add: spider_and_get_alerts_def demo_engine_def with_scheme_def)

lemma demo_spider_fails:
  "spider_and_get_alerts fuel (demo_engine alerts (Inl e) g) ''http://a'' 60 w = Some (Inl e, w)"
  by (simp add: spider_and_get_alerts_def demo_engine_def with_scheme_def)

lemma demo_engine_phase:
  "engine_phase (Suc 0) (demo_engine alerts (Inr ()) g) ''http://a'' lvl 0 =
     Some (Inr (alerts, if lvl \<ge> 2 then Some ''1'' else None), 2)"
  by (simp add: engine_phase_def demo_spider) (simp add: demo_engine_def)

lemma demo_scan_body:
  "scan_body (Suc 0) (demo_engine alerts (Inr ()) (Inr text)) ''http://a'' lvl 0 =
     Some (Inr (demo_report lvl (if lvl \<ge> 2 then Some ''1'' else None) text
                  (if lvl = 3 then alerts @ [waf_finding ''http://a''] else alerts)), 2)"
  by (simp add: scan_body_def demo_engine_phase build_report_def ai_analyze_def inject_synthetic_def
      demo_report_def Let_def del: One_nat_def)
    (simp add: demo_engine_def)

lemma scan_invalid:
  "request_target req = [] \<or> \<not> valid_url E (request_target req) \<Longrightarrow>
     scan fuel E req st w = Some (Err400 invalid_url_message, st, w)"
  by (auto simp: scan_def Let_def)

lemma scan_valid:
  "request_target req \<noteq> [] \<Longrightarrow> valid_url E (request_target req) \<Longrightarrow>
     scan fuel E req st w =
       (case scan_body fuel E (request_target req) (request_level req) w of
          None \<Rightarrow> None
        | Some (Inl e, w1) \<Rightarrow> Some (Err500 e, st, w1)
        | Some (Inr rep, w1) \<Rightarrow> Some (Ok200 rep, Some rep, w1))"
  by (simp add: scan_def Let_def)

lemma scan_Ok200:
  assumes "scan fuel E req st w = Some (Ok200 rep, st', w')"
  shows "request_target req \<noteq> []" "valid_url E (request_target req)"
    "scan_body fuel E (request_target req) (request_level req) w = Some (Inr rep, w')"
    "st' = Some rep"
  using assms
  by (auto simp: scan_def Let_def split: if_splits option.splits sum.splits prod.splits)

lemma scan_store:
  assumes "scan fuel E req st w = Some (r, st', w')"
  shows "(\<exists>rep. r = Ok200 rep \<and> st' = Some rep) \<or> st' = st"
  using assms
  by (auto simp: scan_def Let_def split: if_splits option.splits sum.splits prod.splits)

lemma build_report_fields:
  "ascan_id (fst (build_report E tgt lvl alerts aid w)) = aid"
  "vulnerabilities (fst (build_report E tgt lvl alerts aid w)) = finalize (simplify_alerts alerts)"
  "summary (fst (build_report E tgt lvl alerts aid w)) = summary_of (finalize (simplify_alerts alerts))"
  "ai_summary (fst (build_report E tgt lvl alerts aid w)) =
     fst (ai_analyze E (finalize (simplify_alerts alerts)) tgt lvl w)"
  by (simp_all add: build_report_def Let_def split: prod.splits)

lemma scan_body_Inr:
  assumes "scan_body fuel E tgt lvl w = Some (Inr rep, w')"
  shows "\<exists>alerts aid w1. engine_phase fuel E tgt lvl w = Some (Inr (alerts, aid), w1)
           \<and> build_report E tgt lvl (inject_synthetic lvl tgt alerts) aid w1 = (rep, w')"
  using assms
  by (auto simp: scan_body_def split: option.splits sum.splits prod.splits)

lemma scan_body_Inl:
  "scan_body fuel E tgt lvl w = Some (Inl e, w1) \<longleftrightarrow> engine_phase fuel E tgt lvl w = Some (Inl e, w1)"
  by (auto simp: scan_body_def split: option.splits sum.splits prod.splits)

lemma scan_body_of_engine_phase:
  "engine_phase fuel E tgt lvl w = Some (Inr (alerts, aid), w1) \<Longrightarrow>
     scan_body fuel E tgt lvl w =
       Some (Inr (fst (build_report E tgt lvl (inject_synthetic lvl tgt alerts) aid w1)),
             snd (build_report E tgt lvl (inject_synthetic lvl tgt alerts) aid w1))"
  by (simp add: scan_body_def split: prod.splits)

lemma engine_phase_Inr:
  assumes "engine_phase fuel E tgt lvl w = Some (Inr (alerts, aid), w1)"
  shows "lvl \<ge> 2 \<Longrightarrow> aid \<noteq> None"
    and "\<not> lvl \<ge> 2 \<Longrightarrow> aid = None \<and> spider_and_get_alerts fuel E tgt 60 w = Some (Inr alerts, w1)"
  using assms
  by (auto simp: engine_phase_def split: if_splits option.splits sum.splits prod.splits)

lemma engine_phase_urlopen_error:
  "urlopen E (with_scheme tgt) w = (Inl e, w1) \<Longrightarrow> engine_phase fuel E tgt lvl w = Some (Inl e, w1)"
  by (simp add: engine_phase_def spider_and_get_alerts_def Let_def)

lemma waf_finding_fields:
  "resolve_name (waf_finding tgt) = PStr ''Missing WAF/Firewall headers''"
  "resolve_risk (waf_finding tgt) = PStr ''Medium''"
  by (simp_all add: waf_finding_def resolve_defs)

text \<open>
  C4: when the scan of a request returns a report, the raw findings that are normalized are
  the engine's, followed by the synthetic finding "Missing WAF/Firewall headers" (risk Medium)
  exactly when the level is 3; for a level up to 1 (so also 0 and negative levels) the job id
  is null and the findings are the spider's; for a level from 2 on the job id is not null.
  The loop of the active scan may have ended by completion or by its time bound.
\<close>

theorem scan_levels:
  assumes "scan fuel E req st w = Some (Ok200 rep, st', w')"
  shows "\<exists>alerts w1.
           engine_phase fuel E (request_target req) (request_level req) w =
             Some (Inr (alerts, ascan_id rep), w1)
           \<and> vulnerabilities rep =
               finalize (simplify_alerts
                 (if request_level req = 3 then alerts @ [waf_finding (request_target req)]
                  else alerts))
           \<and> (request_level req \<le> 1 \<longrightarrow>
                 ascan_id rep = None
                 \<and> spider_and_get_alerts fuel E (request_target req) 60 w = Some (Inr alerts, w1)
                 \<and> vulnerabilities rep = finalize (simplify_alerts alerts))
           \<and> (request_level req \<ge> 2 \<longrightarrow> ascan_id rep \<noteq> None)
           \<and> (request_level req \<noteq> 3 \<longrightarrow> vulnerabilities rep = finalize (simplify_alerts alerts))
           \<and> resolve_name (waf_finding (request_target req)) = PStr ''Missing WAF/Firewall headers''
           \<and> resolve_risk (waf_finding (request_target req)) = PStr ''Medium''"
proof -
  let ?tgt = "request_target req" and ?lvl = "request_level req"
  have body: "scan_body fuel E ?tgt ?lvl w = Some (Inr rep, w')"
    by (rule scan_Ok200(3)[OF assms])
  from scan_body_Inr[OF body] obtain alerts aid w1 where
    ph: "engine_phase fuel E ?tgt ?lvl w = Some (Inr (alerts, aid), w1)" and
    br: "build_report E ?tgt ?lvl (inject_synthetic ?lvl ?tgt alerts) aid w1 = (rep, w')"
    by auto
  from br have rep: "rep = fst (build_report E ?tgt ?lvl (inject_synthetic ?lvl ?tgt alerts) aid w1)"
    by simp
  have aid: "ascan_id rep = aid"
    by (simp only: rep build_report_fields)
  have vs: "vulnerabilities rep = finalize (simplify_alerts
              (if ?lvl = 3 then alerts @ [waf_finding ?tgt] else alerts))"
    by (simp only: rep build_report_fields inject_synthetic_def)
  have low: "aid = None \<and> spider_and_get_alerts fuel E ?tgt 60 w = Some (Inr alerts, w1)"
    if "?lvl \<le> 1"
    using engine_phase_Inr(2)[OF ph] that by simp
  have high: "aid \<noteq> None" if "?lvl \<ge> 2"
    using engine_phase_Inr(1)[OF ph] that by simp
  show ?thesis
    using ph aid vs low high
    by (intro exI[of _ alerts] exI[of _ w1]) (auto simp: waf_finding_fields)
qed

text \<open>C4 on an engine that returns the three findings of the scenario, at levels 1, 0, 2, 3 and 5.\<close>

theorem scan_levels_witness:
  "scan (Suc 0) (demo_engine scenario_alerts (Inr ()) (Inr ''ok'')) (demo_request None) None 0 =
     Some (Ok200 (demo_report 1 None ''ok'' scenario_alerts),
           Some (demo_report 1 None ''ok'' scenario_alerts), 2)
   \<and> scan (Suc 0) (demo_engine scenario_alerts (Inr ()) (Inr ''ok'')) (demo_request (Some 0)) None 0 =
     Some (Ok200 (demo_report 0 None ''ok'' scenario_alerts),
           Some (demo_report 0 None ''ok'' scenario_alerts), 2)
   \<and> scan (Suc 0) (demo_engine scenario_alerts (Inr ()) (Inr ''ok'')) (demo_request (Some 2)) None 0 =
     Some (Ok200 (demo_report 2 (Some ''1'') ''ok'' scenario_alerts),
           Some (demo_report 2 (Some ''1'') ''ok'' scenario_alerts), 2)
   \<and> scan (Suc 0) (demo_engine scenario_alerts (Inr ()) (Inr ''ok'')) (demo_request (Some 3)) None 0 =
     Some (Ok200 (demo_report 3 (Some ''1'') ''ok'' (scenario_alerts @ [waf_finding ''http://a''])),
           Some (demo_report 3 (Some ''1'') ''ok'' (scenario_alerts @ [waf_finding ''http://a''])), 2)
   \<and> scan (Suc 0) (demo_engine scenario_alerts (Inr ()) (Inr ''ok'')) (demo_request (Some 5)) None 0 =
     Some (Ok200 (demo_report 5 (Some ''1'') ''ok'' scenario_alerts),
           Some (demo_report 5 (Some ''1'') ''ok'' scenario_alerts), 2)
   \<and> map name (vulnerabilities (demo_report 3 (Some ''1'') ''ok'' (scenario_alerts @ [waf_finding ''http://a''])))
       = [PStr ''XSS'', PStr ''SQLi'', PStr ''Missing WAF/Firewall headers'']"
proof -
  let ?E = "demo_engine scenario_alerts (Inr ()) (Inr ''ok'')"
  have v: "valid_url ?E ''http://a''"
    by (simp add: demo_engine_def)
  have s: "scan (Suc 0) ?E (demo_request l) None 0 =
      Some (Ok200 (demo_report (request_level (demo_request l))
                     (if request_level (demo_request l) \<ge> 2 then Some ''1'' else None) ''ok''
                     (if request_level (demo_request l) = 3
                      then scenario_alerts @ [waf_finding ''http://a''] else scenario_alerts)),
            Some (demo_report (request_level (demo_request l))
                     (if request_level (demo_request l) \<ge> 2 then Some ''1'' else None) ''ok''
                     (if request_level (demo_request l) = 3
                      then scenario_alerts @ [waf_finding ''http://a''] else scenario_alerts)), 2)"
    for l
    using v by (simp add: scan_valid demo_target demo_scan_body del: One_nat_def)
  have s1: "scan (Suc 0) ?E (demo_request None) None 0 =
     Some (Ok200 (demo_report 1 None ''ok'' scenario_alerts),
           Some (demo_report 1 None ''ok'' scenario_alerts), 2)"
    using s[of None] by (simp add: demo_level)
  have s0: "scan (Suc 0) ?E (demo_request (Some 0)) None 0 =
     Some (Ok200 (demo_report 0 None ''ok'' scenario_alerts),
           Some (demo_report 0 None ''ok'' scenario_alerts), 2)"
    using s[of "Some 0"] by (simp add: demo_level)
  have s2: "scan (Suc 0) ?E (demo_request (Some 2)) None 0 =
     Some (Ok200 (demo_report 2 (Some ''1'') ''ok'' scenario_alerts),
           Some (demo_report 2 (Some ''1'') ''ok'' scenario_alerts), 2)"
    using s[of "Some 2"] by (simp add: demo_level)
  have s3: "scan (Suc 0) ?E (demo_request (Some 3)) None 0 =
     Some (Ok200 (demo_report 3 (Some ''1'') ''ok'' (scenario_alerts @ [waf_finding ''http://a''])),
           Some (demo_report 3 (Some ''1'') ''ok'' (scenario_alerts @ [waf_finding ''http://a''])), 2)"
    using s[of "Some 3"] by (simp add: demo_level)
  have s5: "scan (Suc 0) ?E (demo_request (Some 5)) None 0 =
     Some (Ok200 (demo_report 5 (Some ''1'') ''ok'' scenario_alerts),
           Some (demo_report 5 (Some ''1'') ''ok'' scenario_alerts), 2)"
    using s[of "Some 5"] by (simp add: demo_level)
  have names: "map name (simplify_alerts (scenario_alerts @ [waf_finding ''http://a''])) =
      [PStr ''XSS'', PStr ''SQLi'', PStr ''Missing WAF/Firewall headers'']"
    by (simp add: simplify_alerts_names fromkeys_append waf_finding_fields fromkeys_insert_def)
      (simp add: simplify_alerts_names[symmetric] scenario_simplified)
  have n3: "map name (vulnerabilities (demo_report 3 (Some ''1'') ''ok'' (scenario_alerts @ [waf_finding ''http://a''])))
       = [PStr ''XSS'', PStr ''SQLi'', PStr ''Missing WAF/Firewall headers'']"
    using names by (simp add: demo_report_def finalize_def comp_def name_finalize)
  show ?thesis
    using scan_levels[OF s1] scan_levels[OF s0] scan_levels[OF s2] scan_levels[OF s3]
      scan_levels[OF s5] s1 s0 s2 s3 s5 n3
    by (simp only: simp_thms)
qed

lemma ai_analyze_failure:
  "generate E (summary_prompt fs tgt lvl) w = (Inl e, w1) \<Longrightarrow>
     ai_analyze E fs tgt lvl w = (''[AI summary unavailable: '' @ e @ '']'', w1)"
  by (simp add: ai_analyze_def)

lemma chat_failure:
  "strip msg \<noteq> [] \<Longrightarrow> generate E (chat_prompt (strip msg) inc st) w = (Inl e, w1) \<Longrightarrow>
     chat E \<lparr>message = Some msg, include_scan = inc\<rparr> st w =
       (Err500 (''AI Chat unavailable: '' @ e), w1)"
  by (simp add: chat_def Let_def)

lemma scan_of_engine_phase:
  assumes "request_target req \<noteq> []" "valid_url E (request_target req)"
    "engine_phase fuel E (request_target req) (request_level req) w = Some (Inr (alerts, aid), w1)"
  shows "\<exists>rep w2. scan fuel E req st w = Some (Ok200 rep, Some rep, w2)
           \<and> ai_summary rep =
               fst (ai_analyze E
                 (finalize (simplify_alerts
                    (inject_synthetic (request_level req) (request_target req) alerts)))
                 (request_target req) (request_level req) w1)"
  using assms
  by (simp add: scan_valid scan_body_of_engine_phase build_report_fields)

text \<open>
  C8: a request whose URL is missing or invalid is answered 400 and store and world stay as
  they were; when a step of the scan raises an error, which only the calls of the engine can,
  the answer is 500 with the text of that error and the store stays as it was; the store
  changes only with an answer 200, and then holds the report returned.
\<close>

theorem scan_changes_store_only_on_success:
  "(request_target req = [] \<or> \<not> valid_url E (request_target req) \<longrightarrow>
      scan fuel E req st w = Some (Err400 invalid_url_message, st, w))
   \<and> (request_target req \<noteq> [] \<and> valid_url E (request_target req)
        \<and> engine_phase fuel E (request_target req) (request_level req) w = Some (Inl e, wa) \<longrightarrow>
      scan fuel E req st w = Some (Err500 e, st, wa))
   \<and> (request_target req \<noteq> [] \<and> valid_url E (request_target req)
        \<and> urlopen E (with_scheme (request_target req)) w = (Inl e, wa) \<longrightarrow>
      scan fuel E req st w = Some (Err500 e, st, wa))
   \<and> (scan fuel E req st w = Some (Err500 e, st', w') \<longrightarrow>
      st' = st \<and> engine_phase fuel E (request_target req) (request_level req) w = Some (Inl e, w'))
   \<and> (scan fuel E req st w = Some (r, st', w') \<and> st' \<noteq> st \<longrightarrow>
      (\<exists>rep. r = Ok200 rep \<and> st' = Some rep))"
proof -
  have a: "scan fuel E req st w = Some (Err400 invalid_url_message, st, w)"
    if "request_target req = [] \<or> \<not> valid_url E (request_target req)"
    using that by (rule scan_invalid)
  have b: "scan fuel E req st w = Some (Err500 e, st, wa)"
    if "request_target req \<noteq> []" "valid_url E (request_target req)"
      "engine_phase fuel E (request_target req) (request_level req) w = Some (Inl e, wa)"
    using that by (simp add: scan_valid scan_body_Inl[THEN iffD2])
  have c: "scan fuel E req st w = Some (Err500 e, st, wa)"
    if "request_target req \<noteq> []" "valid_url E (request_target req)"
      "urlopen E (with_scheme (request_target req)) w = (Inl e, wa)"
    using that(1,2) engine_phase_urlopen_error[OF that(3)] by (rule b)
  have d: "st' = st \<and> engine_phase fuel E (request_target req) (request_level req) w = Some (Inl e, w')"
    if "scan fuel E req st w = Some (Err500 e, st', w')"
    using that
    by (auto simp: scan_def Let_def scan_body_Inl[symmetric]
        split: if_splits option.splits sum.splits prod.splits)
  have f: "\<exists>rep. r = Ok200 rep \<and> st' = Some rep"
    if "scan fuel E req st w = Some (r, st', w')" "st' \<noteq> st"
    using scan_store[OF that(1)] that(2) by blast
  from a b c d f show ?thesis
    by blast
qed

text \<open>
  C8 on a request without URL, a request with an invalid URL and an engine that cannot be
  reached, each with a report already in the store.
\<close>

theorem scan_changes_store_only_on_success_witness:
  "request_target \<lparr>req_url = None, req_level = Some 2\<rparr> = []
   \<and> scan 0 (demo_engine [] (Inr ()) (Inr ''ok'')) \<lparr>req_url = None, req_level = Some 2\<rparr>
        (Some (demo_report 1 None ''ok'' [])) 7 =
       Some (Err400 invalid_url_message, Some (demo_report 1 None ''ok'' []), 7)
   \<and> \<not> valid_url (demo_engine [] (Inr ()) (Inr ''ok''))
         (request_target \<lparr>req_url = Some ''not a url'', req_level = None\<rparr>)
   \<and> scan 0 (demo_engine [] (Inr ()) (Inr ''ok'')) \<lparr>req_url = Some ''not a url'', req_level = None\<rparr>
        (Some (demo_report 1 None ''ok'' [])) 7 =
       Some (Err400 invalid_url_message, Some (demo_report 1 None ''ok'' []), 7)
   \<and> urlopen (demo_engine [] (Inl ''ZAP unreachable'') (Inr ''ok''))
        (with_scheme (request_target (demo_request (Some 3)))) 7 = (Inl ''ZAP unreachable'', 7)
   \<and> scan (Suc 0) (demo_engine [] (Inl ''ZAP unreachable'') (Inr ''ok'')) (demo_request (Some 3))
        (Some (demo_report 1 None ''ok'' [])) 7 =
       Some (Err500 ''ZAP unreachable'', Some (demo_report 1 None ''ok'' []), 7)
   \<and> scan (Suc 0) (demo_engine scenario_alerts (Inr ()) (Inr ''ok'')) (demo_request (Some 2))
        (Some (demo_report 1 None ''ok'' [])) 0 =
       Some (Ok200 (demo_report 2 (Some ''1'') ''ok'' scenario_alerts),
             Some (demo_report 2 (Some ''1'') ''ok'' scenario_alerts), 2)"
proof -
  let ?st = "Some (demo_report 1 None ''ok'' [])"
  let ?E = "demo_engine [] (Inr ()) (Inr ''ok'')"
  let ?F = "demo_engine [] (Inl ''ZAP unreachable'') (Inr ''ok'')"
  let ?G = "demo_engine scenario_alerts (Inr ()) (Inr ''ok'')"
  have t1: "request_target \<lparr>req_url = None, req_level = Some 2\<rparr> = []"
    by (simp add: request_target_def strip_def)
  have t2: "\<not> valid_url ?E (request_target \<lparr>req_url = Some ''not a url'', req_level = None\<rparr>)"
    by (simp add: request_target_def strip_def is_space_def demo_engine_def)
  have t3: "request_target (demo_request (Some 3)) \<noteq> []"
    "valid_url ?F (request_target (demo_request (Some 3)))"
    "urlopen ?F (with_scheme (request_target (demo_request (Some 3)))) 7 = (Inl ''ZAP unreachable'', 7)"
    by (simp_all add: demo_target demo_engine_def)
  have t4: "valid_url ?G ''http://a''"
    by (simp add: demo_engine_def)
  have ok: "scan (Suc 0) ?G (demo_request (Some 2)) ?st 0 =
       Some (Ok200 (demo_report 2 (Some ''1'') ''ok'' scenario_alerts),
             Some (demo_report 2 (Some ''1'') ''ok'' scenario_alerts), 2)"
    using t4 by (simp add: scan_valid demo_target demo_level demo_scan_body del: One_nat_def)
  have changed: "Some (demo_report 2 (Some ''1'') ''ok'' scenario_alerts) \<noteq> ?st"
    by (simp add: demo_report_def)
  note c1 = scan_changes_store_only_on_success[where req = "\<lparr>req_url = None, req_level = Some 2\<rparr>"
      and E = ?E and fuel = 0 and st = ?st and w = 7]
  note c2 = scan_changes_store_only_on_success[where
      req = "\<lparr>req_url = Some ''not a url'', req_level = None\<rparr>"
      and E = ?E and fuel = 0 and st = ?st and w = 7]
  note c3 = scan_changes_store_only_on_success[where req = "demo_request (Some 3)" and E = ?F
      and fuel = "Suc 0" and e = "''ZAP unreachable''" and wa = 7 and st = ?st and w = 7]
  note c4 = scan_changes_store_only_on_success[where req = "demo_request (Some 2)" and E = ?G
      and fuel = "Suc 0" and st = ?st and w = 0
      and r = "Ok200 (demo_report 2 (Some ''1'') ''ok'' scenario_alerts)"
      and st' = "Some (demo_report 2 (Some ''1'') ''ok'' scenario_alerts)" and w' = 2]
  show ?thesis
    using c1 c2 c3 c4 t1 t2 t3 ok changed
    by (simp only: simp_thms)
qed

text \<open>
  C9 (amended): neither entry point lets a failure of the generation call escape.  The
  scan-summary entry point returns the text "[AI summary unavailable: e]" for the error e, and
  the scan then still answers 200 with that text as its summary.  The chat entry point answers
  500 with the error text "AI Chat unavailable: e", without brackets and not as a reply.
\<close>

theorem narration_failure_containment:
  "(generate E (summary_prompt fs tgt lvl) w = (Inl e, wa) \<longrightarrow>
      ai_analyze E fs tgt lvl w = (''[AI summary unavailable: '' @ e @ '']'', wa))
   \<and> (request_target req \<noteq> [] \<and> valid_url E (request_target req)
        \<and> engine_phase fuel E (request_target req) (request_level req) wi = Some (Inr (alerts, aid), w)
        \<and> generate E (summary_prompt
              (finalize (simplify_alerts (inject_synthetic (request_level req) (request_target req) alerts)))
              (request_target req) (request_level req)) w = (Inl e, wa) \<longrightarrow>
      (\<exists>rep wb. scan fuel E req st wi = Some (Ok200 rep, Some rep, wb)
         \<and> ai_summary rep = ''[AI summary unavailable: '' @ e @ '']''))
   \<and> (strip msg \<noteq> [] \<and> generate E (chat_prompt (strip msg) inc st) w = (Inl e, wa) \<longrightarrow>
      chat E \<lparr>message = Some msg, include_scan = inc\<rparr> st w =
        (Err500 (''AI Chat unavailable: '' @ e), wa))"
proof -
  have b: "\<exists>rep wb. scan fuel E req st wi = Some (Ok200 rep, Some rep, wb)
         \<and> ai_summary rep = ''[AI summary unavailable: '' @ e @ '']''"
    if "request_target req \<noteq> []" "valid_url E (request_target req)"
      "engine_phase fuel E (request_target req) (request_level req) wi = Some (Inr (alerts, aid), w)"
      "generate E (summary_prompt
              (finalize (simplify_alerts (inject_synthetic (request_level req) (request_target req) alerts)))
              (request_target req) (request_level req)) w = (Inl e, wa)"
    using scan_of_engine_phase[OF that(1,2,3), of st] ai_analyze_failure[OF that(4)]
    by simp
  show ?thesis
    using b by (simp add: ai_analyze_failure chat_failure)
qed

text \<open>C9 (amended) on an engine whose generation call fails with "quota exceeded".\<close>

theorem narration_failure_containment_witness:
  "generate (demo_engine scenario_alerts (Inr ()) (Inl ''quota exceeded''))
      (summary_prompt [] ''http://a'' 1) 0 = (Inl ''quota exceeded'', 0)
   \<and> ai_analyze (demo_engine scenario_alerts (Inr ()) (Inl ''quota exceeded'')) [] ''http://a'' 1 0 =
       (''[AI summary unavailable: quota exceeded]'', 0)
   \<and> strip ''hello'' \<noteq> []
   \<and> chat (demo_engine scenario_alerts (Inr ()) (Inl ''quota exceeded''))
        \<lparr>message = Some ''hello'', include_scan = True\<rparr> None 0 =
       (Err500 ''AI Chat unavailable: quota exceeded'', 0)
   \<and> (\<exists>rep wb. scan (Suc 0) (demo_engine scenario_alerts (Inr ()) (Inl ''quota exceeded''))
          (demo_request (Some 1)) None 0 = Some (Ok200 rep, Some rep, wb)
        \<and> ai_summary rep = ''[AI summary unavailable: quota exceeded]'')"
proof -
  let ?E = "demo_engine scenario_alerts (Inr ()) (Inl ''quota exceeded'')"
  have g: "generate ?E p w = (Inl ''quota exceeded'', w)" for p w
    by (simp add: demo_engine_def)
  have s: "strip ''hello'' \<noteq> []"
    by (simp add: strip_def is_space_def)
  have v: "request_target (demo_request (Some 1)) \<noteq> []"
    "valid_url ?E (request_target (demo_request (Some 1)))"
    by (simp_all add: demo_target demo_engine_def)
  have p: "engine_phase (Suc 0) ?E (request_target (demo_request (Some 1)))
      (request_level (demo_request (Some 1))) 0 = Some (Inr (scenario_alerts, None), 2)"
    by (simp add: demo_target demo_level demo_engine_phase del: One_nat_def)
  note t1 = narration_failure_containment[where E = ?E and fs = "[]" and tgt = "''http://a''"
      and lvl = 1 and w = 0 and e = "''quota exceeded''" and wa = 0 and msg = "''hello''"
      and inc = True and st = None]
  note t2 = narration_failure_containment[where E = ?E and w = 2 and e = "''quota exceeded''"
      and wa = 2 and req = "demo_request (Some 1)" and fuel = "Suc 0" and wi = 0
      and alerts = scenario_alerts and aid = None and st = None]
  show ?thesis
    using t1 t2 g s v p
    by simp
qed

text \<open>
  C9 as stated fails for the chat entry point: on a generation failure it answers 500 with an
  error text, not a reply.
\<close>

theorem chat_failure_is_an_error_counterexample:
  "generate (demo_engine [] (Inr ()) (Inl ''quota exceeded''))
      (chat_prompt ''hello'' False None) 0 = (Inl ''quota exceeded'', 0)
   \<and> chat (demo_engine [] (Inr ()) (Inl ''quota exceeded''))
        \<lparr>message = Some ''hello'', include_scan = False\<rparr> None 0 =
       (Err500 ''AI Chat unavailable: quota exceeded'', 0)"
  by (simp add: chat_def Let_def strip_def is_space_def demo_engine_def)

end
